theory Spec2Isabelle
  imports Main
begin

section \<open>Python primitives used by billboardNYE.py\<close>

text \<open>
  Strings are lists of code points below 256 (Latin-1), so the non-breaking space
  \<open>\xa0\<close> that the old-style parser splits on is the single character 160.  Within
  that range the decimal digits of \<open>\d\<close>, \<open>[0-9]\<close> and \<open>int()\<close> coincide, and
  the white space of \<open>str.strip\<close> and \<open>\s\<close> is the same set of twelve characters.
  \<open>int()\<close> skips fewer: the four separators 28 to 31 are white space for
  \<open>str.strip\<close> and not for \<open>int()\<close>.
\<close>

definition is_digit :: "char \<Rightarrow> bool" where
  "is_digit c = (48 \<le> (of_char c :: nat) \<and> (of_char c :: nat) \<le> 57)"

definition digit_val :: "char \<Rightarrow> int" where
  "digit_val c = int (of_char c) - 48"

definition digit_char :: "nat \<Rightarrow> char" where
  "digit_char k = char_of (48 + k)"

definition py_isspace :: "char \<Rightarrow> bool" where
  "py_isspace c = ((of_char c :: nat) \<in> {9, 10, 11, 12, 13, 28, 29, 30, 31, 32, 133, 160})"

definition int_isspace :: "char \<Rightarrow> bool" where
  "int_isspace c = ((of_char c :: nat) \<in> {9, 10, 11, 12, 13, 32, 133, 160})"

text \<open>Dropping the characters of a class at both ends\<close>

definition strip_chars :: "(char \<Rightarrow> bool) \<Rightarrow> string \<Rightarrow> string" where
  "strip_chars P s = rev (dropWhile P (rev (dropWhile P s)))"

text \<open>\<open>s.strip()\<close>\<close>

definition py_strip :: "string \<Rightarrow> string" where
  "py_strip s = strip_chars py_isspace s"

text \<open>\<open>s.lower()\<close> on Latin-1 code points\<close>

definition lower_char :: "char \<Rightarrow> char" where
  "lower_char c =
     (let n = (of_char c :: nat)
      in if (65 \<le> n \<and> n \<le> 90) \<or> (192 \<le> n \<and> n \<le> 222 \<and> n \<noteq> 215) then char_of (n + 32) else c)"

definition py_lower :: "string \<Rightarrow> string" where
  "py_lower s = map lower_char s"

text \<open>\<open>s.split(sep)\<close> for a one-character separator: never the empty list.\<close>

fun split_on :: "char \<Rightarrow> string \<Rightarrow> string list" where
  "split_on sep [] = [[]]"
| "split_on sep (c # cs) =
     (if c = sep then [] # split_on sep cs
      else (case split_on sep cs of
              [] \<Rightarrow> [[c]]
            | x # xs \<Rightarrow> (c # x) # xs))"

text \<open>
  \<open>int(s)\<close> in base 10: the white space of \<open>int()\<close> is skipped at both ends, one
  sign is allowed, then decimal digits, where single underscores may separate digits.
  \<open>None\<close> is the \<open>ValueError\<close>.  The limit on the number of digits is a setting of
  the interpreter (\<open>sys.set_int_max_str_digits\<close>, absent from older versions); the
  model is the conversion without a limit.
\<close>

fun parse_digits :: "int \<Rightarrow> string \<Rightarrow> int option" where
  "parse_digits acc [] = Some acc"
| "parse_digits acc (c # cs) =
     (if is_digit c then parse_digits (acc * 10 + digit_val c) cs
      else if c = CHR ''_'' then
        (case cs of
           [] \<Rightarrow> None
         | d # ds \<Rightarrow> if is_digit d then parse_digits acc cs else None)
      else None)"

definition parse_unsigned :: "string \<Rightarrow> int option" where
  "parse_unsigned s =
     (case s of
        [] \<Rightarrow> None
      | c # cs \<Rightarrow> if is_digit c then parse_digits 0 s else None)"

definition py_int :: "string \<Rightarrow> int option" where
  "py_int s =
     (let t = strip_chars int_isspace s
      in case t of
           [] \<Rightarrow> None
         | c # cs \<Rightarrow>
             if c = CHR ''-'' then map_option uminus (parse_unsigned cs)
             else if c = CHR ''+'' then parse_unsigned cs
             else parse_unsigned t)"

text \<open>\<open>str(n)\<close> for an integer\<close>

fun digits_of :: "nat \<Rightarrow> string" where
  "digits_of n = (if n < 10 then [digit_char n] else digits_of (n div 10) @ [digit_char (n mod 10)])"

declare digits_of.simps [simp del]

definition py_str_int :: "int \<Rightarrow> string" where
  "py_str_int n = (if n < 0 then CHR ''-'' # digits_of (nat (- n)) else digits_of (nat n))"

text \<open>\<open>'%0kd' % n\<close> for a non-negative integer\<close>

definition zero_pad :: "nat \<Rightarrow> nat \<Rightarrow> string" where
  "zero_pad k n = replicate (k - length (digits_of n)) CHR ''0'' @ digits_of n"

section \<open>Dates: \<open>datetime\<close>, \<open>strptime\<close>, \<open>strftime\<close>\<close>

definition is_leap :: "int \<Rightarrow> bool" where
  "is_leap y = (y mod 4 = 0 \<and> (y mod 100 \<noteq> 0 \<or> y mod 400 = 0))"

definition days_in_month :: "int \<Rightarrow> int \<Rightarrow> int" where
  "days_in_month y m =
     (if m = 2 then (if is_leap y then 29 else 28)
      else if m = 4 \<or> m = 6 \<or> m = 9 \<or> m = 11 then 30 else 31)"

text \<open>\<open>datetime.date(y, m, d)\<close> succeeds\<close>

definition valid_date :: "int \<Rightarrow> int \<Rightarrow> int \<Rightarrow> bool" where
  "valid_date y m d =
     (1 \<le> y \<and> y \<le> 9999 \<and> 1 \<le> m \<and> m \<le> 12 \<and> 1 \<le> d \<and> d \<le> days_in_month y m)"

text \<open>
  \<open>datetime.datetime(*args)\<close> succeeds: year, month, day and up to four time fields
  (hour, minute, second, microsecond).  Fewer than three arguments, an integer in the
  place of \<open>tzinfo\<close> or more arguments are a \<open>TypeError\<close>.
\<close>

definition valid_time :: "int list \<Rightarrow> bool" where
  "valid_time ts =
     (length ts \<le> 4 \<and> list_all (\<lambda>(t, hi). 0 \<le> t \<and> t \<le> hi) (zip ts [23, 59, 59, 999999]))"

definition datetime_new :: "int list \<Rightarrow> bool" where
  "datetime_new args =
     (case args of
        y # m # d # ts \<Rightarrow> valid_date y m d \<and> valid_time ts
      | _ \<Rightarrow> False)"

text \<open>The value of a string of decimal digits\<close>

definition tok_val :: "string \<Rightarrow> int" where
  "tok_val s = foldl (\<lambda>a c. a * 10 + digit_val c) 0 s"

text \<open>
  The directives of \<open>strptime\<close>: \<open>%m\<close> is \<open>1[0-2]|0[1-9]|[1-9]\<close> and \<open>%d\<close> is
  \<open>3[0-1]|[1-2]\d|0[1-9]|[1-9]| [1-9]\<close>, that is one or two digits with a value in
  range, or for the day a space and a non-zero digit.
\<close>

definition num_tok :: "int \<Rightarrow> string \<Rightarrow> bool" where
  "num_tok hi s =
     ((length s = 1 \<or> length s = 2) \<and> list_all is_digit s \<and> 1 \<le> tok_val s \<and> tok_val s \<le> hi)"

definition day_tok :: "string \<Rightarrow> bool" where
  "day_tok s =
     (num_tok 31 s \<or>
      (case s of [a, b] \<Rightarrow> a = CHR '' '' \<and> is_digit b \<and> b \<noteq> CHR ''0'' | _ \<Rightarrow> False))"

text \<open>
  \<open>datetime.datetime.strptime(s, '%Y-%m-%d')\<close>: the whole string has to match, and the
  fields have to be a date.  \<open>None\<close> is the \<open>ValueError\<close>.
\<close>

definition strptime_Ymd :: "string \<Rightarrow> (int \<times> int \<times> int) option" where
  "strptime_Ymd s =
     (case split_on CHR ''-'' s of
        [ys, ms, ds] \<Rightarrow>
          if length ys = 4 \<and> list_all is_digit ys \<and> num_tok 12 ms \<and> day_tok ds then
            (let y = tok_val ys; m = tok_val ms;
                 d = tok_val (dropWhile (\<lambda>c. c = CHR '' '') ds)
             in if valid_date y m d then Some (y, m, d) else None)
          else None
      | _ \<Rightarrow> None)"

text \<open>
  \<open>datetime.datetime.strptime(s, '%B %d, %Y')\<close> in the English locale: a month name in
  any case, white space, the day, a comma, white space, four digits, and nothing else.
\<close>

definition month_names :: "string list" where
  "month_names =
     [''january'', ''february'', ''march'', ''april'', ''may'', ''june'', ''july'',
      ''august'', ''september'', ''october'', ''november'', ''december'']"

fun find_month :: "string list \<Rightarrow> int \<Rightarrow> string \<Rightarrow> (int \<times> string) option" where
  "find_month [] i s = None"
| "find_month (n # ns) i s =
     (if py_lower (take (length n) s) = n then Some (i, drop (length n) s)
      else find_month ns (i + 1) s)"

definition strptime_BdY :: "string \<Rightarrow> (int \<times> int \<times> int) option" where
  "strptime_BdY s =
     (case find_month month_names 1 s of
        None \<Rightarrow> None
      | Some (m, r0) \<Rightarrow>
          (let r1 = dropWhile py_isspace r0;
               ds = takeWhile is_digit r1;
               r2 = dropWhile is_digit r1
           in if r1 = r0 \<or> \<not> num_tok 31 ds then None
              else (case r2 of
                      [] \<Rightarrow> None
                    | c # r3 \<Rightarrow>
                        (let ys = dropWhile py_isspace r3
                         in if c \<noteq> CHR '','' \<or> ys = r3 \<or> length ys \<noteq> 4 \<or> \<not> list_all is_digit ys
                            then None
                            else (let y = tok_val ys; d = tok_val ds
                                  in if valid_date y m d then Some (y, m, d) else None)))))"

text \<open>\<open>str\<close> of a \<open>datetime.date\<close>: \<open>isoformat\<close>, the year padded to four digits\<close>

definition isoformat :: "int \<times> int \<times> int \<Rightarrow> string" where
  "isoformat dt =
     (case dt of (y, m, d) \<Rightarrow>
        zero_pad 4 (nat y) @ ''-'' @ zero_pad 2 (nat m) @ ''-'' @ zero_pad 2 (nat d))"

text \<open>
  \<open>strftime('%Y-%m-%d')\<close> and \<open>strftime('%Y')\<close> are the work of the C library, which on
  Linux writes the year without padding: \<open>999-01-05\<close> for the year 999.  From the
  year 1000 on the result is that of \<open>isoformat\<close>.
\<close>

definition strftime_Ymd :: "int \<times> int \<times> int \<Rightarrow> string" where
  "strftime_Ymd dt =
     (case dt of (y, m, d) \<Rightarrow>
        digits_of (nat y) @ ''-'' @ zero_pad 2 (nat m) @ ''-'' @ zero_pad 2 (nat d))"

definition strftime_Y :: "int \<times> int \<times> int \<Rightarrow> string" where
  "strftime_Y dt = (case dt of (y, m, d) \<Rightarrow> digits_of (nat y))"

section \<open>Errors\<close>

text \<open>
  A \<open>ValueError\<close> carries its message where the source gives one; the messages that
  the library composes (\<open>strptime\<close>, \<open>int\<close>) are not modelled and are \<open>None\<close>.
\<close>

datatype error =
    ValueError "string option"
  | TypeError
  | BillboardNotFoundException string
  | BillboardParseException string
  | HTTPError nat
  | RequestException

text \<open>The \<open>ValueError\<close> that \<open>strptime\<close> raises\<close>

definition strptime_error :: error where
  "strptime_error = ValueError None"

section \<open>Weekly charts: the date argument of \<open>ChartData.__init__\<close>\<close>

text \<open>\<open>re.match("\d{4}-\d{2}-\d{2}", s)\<close>: a match at the start of the string\<close>

definition re_match_date :: "string \<Rightarrow> bool" where
  "re_match_date s =
     (10 \<le> length s \<and> list_all is_digit (take 4 s) \<and> s ! 4 = CHR ''-'' \<and>
      list_all is_digit (take 2 (drop 5 s)) \<and> s ! 7 = CHR ''-'' \<and>
      list_all is_digit (take 2 (drop 8 s)))"

text \<open>
  Lines 138--144.  \<open>those\<close> is \<open>None\<close> as soon as one \<open>int(x)\<close> raises; the bare
  \<open>except\<close> turns every exception into the second \<open>ValueError\<close>.
\<close>

definition check_date :: "string option \<Rightarrow> error + unit" where
  "check_date date =
     (case date of
        None \<Rightarrow> Inr ()
      | Some s \<Rightarrow>
          if \<not> re_match_date s then Inl (ValueError (Some ''Date argument is not in YYYY-MM-DD format''))
          else (case those (map py_int (split_on CHR ''-'' s)) of
                  None \<Rightarrow> Inl (ValueError (Some ''Date argument is invalid''))
                | Some args \<Rightarrow>
                    if datetime_new args then Inr ()
                    else Inl (ValueError (Some ''Date argument is invalid''))))"

section \<open>Chart entries\<close>

text \<open>
  A Python value of the kinds the entries hold, and an instance as its attribute
  dictionary: an attribute that was never assigned is not in the domain, an attribute
  assigned \<open>None\<close> maps to \<open>VNone\<close>.
\<close>

datatype pyval = VNone | VStr string | VInt int | VBool bool

type_synonym py_obj = "string \<rightharpoonup> pyval"

text \<open>\<open>ChartEntry.__init__\<close>\<close>

definition ChartEntry_init ::
  "pyval \<Rightarrow> pyval \<Rightarrow> pyval \<Rightarrow> pyval \<Rightarrow> pyval \<Rightarrow> pyval \<Rightarrow> pyval \<Rightarrow> pyval \<Rightarrow> py_obj" where
  "ChartEntry_init title artist img peakPos lastPos weeks rank isNew =
     [''title'' \<mapsto> title, ''artist'' \<mapsto> artist, ''image'' \<mapsto> img,
      ''peakPos'' \<mapsto> peakPos, ''lastPos'' \<mapsto> lastPos, ''weeks'' \<mapsto> weeks,
      ''rank'' \<mapsto> rank, ''isNew'' \<mapsto> isNew]"

text \<open>\<open>YearEndChartEntry.__init__\<close>, which does not call the initialiser of its base class\<close>

definition YearEndChartEntry_init :: "pyval \<Rightarrow> pyval \<Rightarrow> pyval \<Rightarrow> py_obj" where
  "YearEndChartEntry_init title artist rank =
     [''title'' \<mapsto> title, ''artist'' \<mapsto> artist, ''rank'' \<mapsto> rank]"

section \<open>The parsed page\<close>

text \<open>
  The HTML parser is a collaborator.  A page is the record of what the selectors of the
  source find in it; a field that the source reads with \<open>[...]\<close> or through
  \<open>select_one(...)\<close> is \<open>None\<close> where that read raises.
\<close>

record image_elem =
  attr_data_src :: "string option"
  attr_src :: "string option"

text \<open>
  \<open>div.chart-list-item__ministats-cell\<close>: \<open>cell_heading\<close> is \<open>heading.string\<close>, and
  \<open>None\<close> where there is no heading element or it has no single string.
\<close>

record ministats_cell =
  cell_heading :: "string option"
  cell_text :: string

text \<open>\<open>div.chart-list-item\<close>\<close>

record old_item =
  attr_title :: "string option"
  attr_artist :: "string option"
  item_image :: "image_elem option"
  attr_rank :: "string option"
  item_cells :: "ministats_cell list"

text \<open>
  \<open>li.chart-list__element\<close>: the text of the three spans, and for each attribute the
  element \<open>span.chart-element__meta.text--attribute\<close> with its \<open>.string\<close>.
\<close>

record new_item =
  span_song :: "string option"
  span_artist :: "string option"
  span_rank :: "string option"
  item_meta :: "string \<Rightarrow> string option option"

text \<open>An element of class \<open>ye-chart-item\<close>: the text of the first match of each selector\<close>

record ye_item =
  ye_title :: "string option"
  ye_artist :: "string option"
  ye_rank :: "string option"

text \<open>
  \<open>meta_title\<close> is the \<open>content\<close> of \<open>meta[name="title"]\<close> (empty when the attribute is
  missing), \<open>tables\<close> the number of \<open>table\<close> elements, the date buttons are the text
  of the old-style and of the new-style date element, \<open>prev_href\<close> and \<open>next_href\<close> the
  \<open>href\<close> of the parent of the chevron, \<open>None\<close> where the chevron or the attribute is
  missing.
\<close>

record document =
  meta_title :: "string option"
  tables :: nat
  date_button :: "string option"
  date_button_new :: "string option"
  prev_href :: "string option"
  next_href :: "string option"
  chart_list_items :: "old_item list"
  chart_list_elements :: "new_item list"
  ye_chart_items :: "ye_item list"

section \<open>Chart snapshots\<close>

text \<open>
  The attributes of a \<open>ChartData\<close> or \<open>YearEnd\<close> instance.  For \<open>self_date\<close> and
  \<open>self_previousDate\<close> \<open>None\<close> is Python's \<open>None\<close>; for \<open>self_title\<close> and
  \<open>self_nextDate\<close>, which not every path assigns, \<open>None\<close> is a missing attribute.
\<close>

record chart_data =
  self_name :: string
  self_date :: "string option"
  self_title :: "string option"
  self_previousDate :: "string option"
  self_nextDate :: "string option"
  self_entries :: "py_obj list"

text \<open>\<open>if self.date:\<close>\<close>

definition has_date :: "chart_data \<Rightarrow> bool" where
  "has_date s = (case self_date s of None \<Rightarrow> False | Some d \<Rightarrow> d \<noteq> [])"

definition first_field :: "char \<Rightarrow> string \<Rightarrow> string" where
  "first_field sep s = (case split_on sep s of [] \<Rightarrow> [] | x # xs \<Rightarrow> x)"

definition last_field :: "char \<Rightarrow> string \<Rightarrow> string" where
  "last_field sep s = (case rev (split_on sep s) of [] \<Rightarrow> [] | x # xs \<Rightarrow> x)"

text \<open>A field that could not be read is the named \<open>BillboardParseException\<close>.\<close>

definition or_fail :: "'a option \<Rightarrow> string \<Rightarrow> error + 'a" where
  "or_fail v field =
     (case v of
        None \<Rightarrow> Inl (BillboardParseException (''Failed to parse '' @ field))
      | Some x \<Rightarrow> Inr x)"

subsection \<open>Old-style entries\<close>

text \<open>
  The body of the \<open>try\<close> of \<open>getMinistatsCellValue\<close>; \<open>None\<close> is an exception raised
  in it.
\<close>

fun ministats_scan :: "ministats_cell list \<Rightarrow> string \<Rightarrow> pyval \<Rightarrow> pyval option" where
  "ministats_scan [] fieldName ifNoValue = Some ifNoValue"
| "ministats_scan (ministat # rest) fieldName ifNoValue =
     (case cell_heading ministat of
        None \<Rightarrow> None
      | Some h \<Rightarrow>
          if py_lower (py_strip h) = fieldName then
            (let v = py_strip (first_field (CHR 0xA0) (cell_text ministat))
             in if v = ''-'' then Some ifNoValue else map_option VInt (py_int v))
          else ministats_scan rest fieldName ifNoValue)"

definition getMinistatsCellValue :: "ministats_cell list \<Rightarrow> string \<Rightarrow> pyval \<Rightarrow> error + pyval" where
  "getMinistatsCellValue cells fieldName ifNoValue =
     or_fail (ministats_scan cells fieldName ifNoValue) (''ministats cell value: '' @ fieldName)"

definition old_image :: "old_item \<Rightarrow> string option" where
  "old_image e =
     (case item_image e of
        None \<Rightarrow> None
      | Some imageSoup \<Rightarrow>
          (case attr_data_src imageSoup of
             Some v \<Rightarrow> Some v
           | None \<Rightarrow> attr_src imageSoup))"

text \<open>\<open>title, artist = artist, title\<close> when the artist is empty\<close>

definition swap_empty :: "string \<Rightarrow> string \<Rightarrow> string \<times> string" where
  "swap_empty title artist = (if artist = [] then (artist, title) else (title, artist))"

text \<open>One iteration of the loop of \<open>_parseOldStylePage\<close>, up to the \<open>append\<close>\<close>

definition parseOldEntry :: "bool \<Rightarrow> old_item \<Rightarrow> error + py_obj" where
  "parseOldEntry dated e =
     (case or_fail (map_option py_strip (attr_title e)) ''title'' of Inl x \<Rightarrow> Inl x | Inr title0 \<Rightarrow>
      case or_fail (map_option py_strip (attr_artist e)) ''artist'' of Inl x \<Rightarrow> Inl x | Inr artist0 \<Rightarrow>
      case swap_empty title0 artist0 of (title, artist) \<Rightarrow>
      case or_fail (old_image e) ''image'' of Inl x \<Rightarrow> Inl x | Inr img \<Rightarrow>
      case or_fail (Option.bind (attr_rank e) (\<lambda>r. py_int (py_strip r))) ''rank'' of Inl x \<Rightarrow> Inl x | Inr rank \<Rightarrow>
      if dated then
        (case getMinistatsCellValue (item_cells e) ''peak'' VNone of Inl x \<Rightarrow> Inl x | Inr peakPos \<Rightarrow>
         case getMinistatsCellValue (item_cells e) ''last'' (VInt 0) of Inl x \<Rightarrow> Inl x | Inr lastPos \<Rightarrow>
         case getMinistatsCellValue (item_cells e) ''weeks'' (VInt 1) of Inl x \<Rightarrow> Inl x | Inr weeks \<Rightarrow>
         Inr (ChartEntry_init (VStr title) (VStr artist) (VStr img) peakPos lastPos weeks
                (VInt rank) (VBool (weeks = VInt 1))))
      else
        Inr (ChartEntry_init (VStr title) (VStr artist) (VStr img) VNone VNone VNone
               (VInt rank) (VBool False)))"

subsection \<open>New-style entries\<close>

definition getMeta :: "new_item \<Rightarrow> string \<Rightarrow> pyval \<Rightarrow> error + pyval" where
  "getMeta e attribute ifNoValue =
     (case item_meta e attribute of
        None \<Rightarrow> Inr ifNoValue
      | Some None \<Rightarrow> Inr ifNoValue
      | Some (Some str) \<Rightarrow>
          if str = ''-'' then Inr ifNoValue
          else or_fail (map_option VInt (py_int (py_strip str))) (''metadata value: '' @ attribute))"

text \<open>One iteration of the loop of \<open>_parseNewStylePage\<close>\<close>

definition parseNewEntry :: "bool \<Rightarrow> new_item \<Rightarrow> error + py_obj" where
  "parseNewEntry dated e =
     (case or_fail (map_option py_strip (span_song e)) ''title'' of Inl x \<Rightarrow> Inl x | Inr title0 \<Rightarrow>
      case or_fail (map_option py_strip (span_artist e)) ''artist'' of Inl x \<Rightarrow> Inl x | Inr artist0 \<Rightarrow>
      case swap_empty title0 artist0 of (title, artist) \<Rightarrow>
      case or_fail (Option.bind (span_rank e) (\<lambda>r. py_int (py_strip r))) ''rank'' of Inl x \<Rightarrow> Inl x | Inr rank \<Rightarrow>
      if dated then
        (case getMeta e ''peak'' VNone of Inl x \<Rightarrow> Inl x | Inr peakPos \<Rightarrow>
         case getMeta e ''last'' (VInt 0) of Inl x \<Rightarrow> Inl x | Inr lastPos \<Rightarrow>
         case getMeta e ''week'' (VInt 1) of Inl x \<Rightarrow> Inl x | Inr weeks \<Rightarrow>
         Inr (ChartEntry_init (VStr title) (VStr artist) VNone peakPos lastPos weeks
                (VInt rank) (VBool (weeks = VInt 1))))
      else
        Inr (ChartEntry_init (VStr title) (VStr artist) VNone VNone VNone VNone
               (VInt rank) (VBool False)))"

subsection \<open>Year-end entries\<close>

text \<open>One iteration of the loop at the end of \<open>YearEnd.fetchEntries\<close>\<close>

definition parseYearEndEntry :: "ye_item \<Rightarrow> error + py_obj" where
  "parseYearEndEntry e =
     (case or_fail (map_option py_strip (ye_title e)) ''title'' of Inl x \<Rightarrow> Inl x | Inr title0 \<Rightarrow>
      case or_fail (map_option py_strip (ye_artist e)) ''artist'' of Inl x \<Rightarrow> Inl x | Inr artist0 \<Rightarrow>
      case swap_empty title0 artist0 of (title, artist) \<Rightarrow>
      case or_fail (Option.bind (ye_rank e) (\<lambda>r. py_int (py_strip r))) ''rank'' of Inl x \<Rightarrow> Inl x | Inr rank \<Rightarrow>
      Inr (YearEndChartEntry_init (VStr title) (VStr artist) (VInt rank)))"

subsection \<open>The entry loops\<close>

text \<open>
  \<open>for e in ...: entry = ...; self.entries.append(entry)\<close>: the list is the one of the
  snapshot, appended to in place, so an exception leaves what was appended before it.
\<close>

fun parse_loop :: "('i \<Rightarrow> error + py_obj) \<Rightarrow> 'i list \<Rightarrow> py_obj list \<Rightarrow> error option \<times> py_obj list" where
  "parse_loop f [] es = (None, es)"
| "parse_loop f (x # xs) es =
     (case f x of
        Inl err \<Rightarrow> (Some err, es)
      | Inr entry \<Rightarrow> parse_loop f xs (es @ [entry]))"

section \<open>Parsing a page\<close>

text \<open>
  \<open>if dateElement: ... self.date = curDate.strftime("%Y-%m-%d")\<close>, the same three lines
  in \<open>_parseOldStylePage\<close>, \<open>_parseNewStylePage\<close> and \<open>YearEnd.fetchEntries\<close>
\<close>

definition parse_page_date :: "string option \<Rightarrow> chart_data \<Rightarrow> error + chart_data" where
  "parse_page_date dateElement s =
     (case dateElement of
        None \<Rightarrow> Inr s
      | Some dateText \<Rightarrow>
          (case strptime_BdY (py_strip dateText) of
             None \<Rightarrow> Inl strptime_error
           | Some curDate \<Rightarrow> Inr (s\<lparr>self_date := Some (strftime_Ymd curDate)\<rparr>)))"

text \<open>\<open>if link and link.parent.get("href"): ... = link.parent.get("href").split("/")[-1]\<close>\<close>

definition link_date :: "string option \<Rightarrow> string option" where
  "link_date href =
     (case href of
        None \<Rightarrow> None
      | Some h \<Rightarrow> if h = [] then None else Some (last_field CHR ''/'' h))"

text \<open>
  A method that raises returns the exception together with the instance as the
  statements before the exception left it.
\<close>

definition parseOldStylePage :: "document \<Rightarrow> chart_data \<Rightarrow> error option \<times> chart_data" where
  "parseOldStylePage soup s =
     (case parse_page_date (date_button soup) s of
        Inl err \<Rightarrow> (Some err, s)
      | Inr s1 \<Rightarrow>
          (let s2 = (case link_date (prev_href soup) of
                       None \<Rightarrow> s1
                     | Some d \<Rightarrow> s1\<lparr>self_previousDate := Some d\<rparr>);
               s3 = (case link_date (next_href soup) of
                       None \<Rightarrow> s2
                     | Some d \<Rightarrow> s2\<lparr>self_nextDate := Some d\<rparr>)
           in case parse_loop (parseOldEntry (has_date s3)) (chart_list_items soup) (self_entries s3) of
                (r, es) \<Rightarrow> (r, s3\<lparr>self_entries := es\<rparr>)))"

definition parseNewStylePage :: "document \<Rightarrow> chart_data \<Rightarrow> error option \<times> chart_data" where
  "parseNewStylePage soup s =
     (case parse_page_date (date_button_new soup) s of
        Inl err \<Rightarrow> (Some err, s)
      | Inr s1 \<Rightarrow>
          (case parse_loop (parseNewEntry (has_date s1)) (chart_list_elements soup) (self_entries s1) of
             (r, es) \<Rightarrow> (r, s1\<lparr>self_entries := es\<rparr>)))"

text \<open>
  \<open>re.sub(" Chart$", "", t)\<close>: \<open>$\<close> matches at the end and before a newline that ends
  the string.
\<close>

definition sub_chart :: "string \<Rightarrow> string" where
  "sub_chart t =
     (let n = length t
      in if 6 \<le> n \<and> drop (n - 6) t = '' Chart'' then take (n - 6) t
         else if 7 \<le> n \<and> drop (n - 7) t = '' Chart'' @ [CHR 0x0A] then take (n - 7) t @ [CHR 0x0A]
         else t)"

text \<open>The first statement of \<open>_parsePage\<close>\<close>

definition parse_title :: "document \<Rightarrow> chart_data \<Rightarrow> chart_data" where
  "parse_title soup s =
     (case meta_title soup of
        None \<Rightarrow> s
      | Some content \<Rightarrow>
          s\<lparr>self_title := Some (sub_chart (py_strip (first_field CHR ''|'' content)))\<rparr>)"

definition parsePage :: "document \<Rightarrow> chart_data \<Rightarrow> error option \<times> chart_data" where
  "parsePage soup s =
     (let s1 = parse_title soup s
      in if tables soup \<noteq> 0 then parseOldStylePage soup s1 else parseNewStylePage soup s1)"

section \<open>Fetching\<close>

text \<open>
  The transport is a collaborator: a function from the URL to no response at all (an
  exception of the HTTP library) or to a status code and the parsed body.  Retries and
  the timeout are its business.
\<close>

datatype response = NoResponse | Response nat document

definition chart_url :: "chart_data \<Rightarrow> string" where
  "chart_url s =
     (case self_date s of
        None \<Rightarrow> ''https://www.billboard.com/charts/'' @ self_name s
      | Some d \<Rightarrow>
          if d = [] then ''https://www.billboard.com/charts/'' @ self_name s
          else ''https://www.billboard.com/charts/'' @ self_name s @ ''/'' @ d)"

text \<open>The status checks of both \<open>fetchEntries\<close>: 404, then \<open>raise_for_status\<close>\<close>

definition check_status :: "response \<Rightarrow> error + document" where
  "check_status r =
     (case r of
        NoResponse \<Rightarrow> Inl RequestException
      | Response status soup \<Rightarrow>
          if status = 404 then
            Inl (BillboardNotFoundException ''Chart not found (perhaps the name is misspelled?)'')
          else if 400 \<le> status \<and> status < 600 then Inl (HTTPError status)
          else Inr soup)"

text \<open>\<open>ChartData.fetchEntries\<close>\<close>

definition fetchEntries :: "(string \<Rightarrow> response) \<Rightarrow> chart_data \<Rightarrow> error option \<times> chart_data" where
  "fetchEntries http s =
     (case check_status (http (chart_url s)) of
        Inl err \<Rightarrow> (Some err, s)
      | Inr soup \<Rightarrow> parsePage soup s)"

text \<open>
  \<open>ChartData.__init__\<close>: the caller gets the instance only if no exception was raised.
\<close>

definition ChartData_init ::
  "(string \<Rightarrow> response) \<Rightarrow> string \<Rightarrow> string option \<Rightarrow> bool \<Rightarrow> error + chart_data" where
  "ChartData_init http nm dt fetch =
     (case check_date dt of
        Inl err \<Rightarrow> Inl err
      | Inr u \<Rightarrow>
          (let s = \<lparr>self_name = nm, self_date = dt, self_title = Some [],
                    self_previousDate = None, self_nextDate = None, self_entries = []\<rparr>
           in if fetch then
                (case fetchEntries http s of
                   (Some err, s') \<Rightarrow> Inl err
                 | (None, s') \<Rightarrow> Inr s')
              else Inr s))"

section \<open>Year-end charts\<close>

text \<open>
  The module \<open>year_end_first_charts\<close> is not part of the sources at hand: its lists of
  chart names are a parameter.  (\<open>yeDoesntLoad\<close> is imported and never used.)
\<close>

record year_end_first_charts =
  ye2002 :: "string list"
  ye2006 :: "string list"
  ye2008 :: "string list"
  ye2009 :: "string list"
  ye2010 :: "string list"
  ye2011 :: "string list"
  ye2012 :: "string list"
  ye2013 :: "string list"
  ye2014 :: "string list"

text \<open>
  The \<open>date\<close> argument of \<open>YearEnd.__init__\<close>: \<open>None\<close>, a string, an integer or a
  \<open>datetime.date\<close> (which is a date by construction).  A \<open>datetime.datetime\<close>, whose
  \<open>str\<close> carries a time of day, is not among the inputs modelled.
\<close>

datatype date_arg = DNone | DStr string | DInt int | DDate int int int

definition py_str :: "date_arg \<Rightarrow> string" where
  "py_str date =
     (case date of
        DNone \<Rightarrow> ''None''
      | DStr s \<Rightarrow> s
      | DInt n \<Rightarrow> py_str_int n
      | DDate y m d \<Rightarrow> isoformat (y, m, d))"

text \<open>\<open>int(date)\<close>\<close>

definition int_of :: "date_arg \<Rightarrow> error + int" where
  "int_of date =
     (case date of
        DStr s \<Rightarrow>
          (case py_int s of
             None \<Rightarrow> Inl (ValueError None)
           | Some n \<Rightarrow> Inr n)
      | DInt n \<Rightarrow> Inr n
      | _ \<Rightarrow> Inl TypeError)"

definition is_date :: "date_arg \<Rightarrow> bool" where
  "is_date date = (case date of DDate y m d \<Rightarrow> True | _ \<Rightarrow> False)"

text \<open>
  \<open>re.match(r'^[0-9]{4}$', s)\<close>: \<open>$\<close> matches at the end and before a newline that
  ends the string.
\<close>

definition re_match_year :: "string \<Rightarrow> bool" where
  "re_match_year s =
     ((length s = 4 \<or> (length s = 5 \<and> s ! 4 = CHR 0x0A)) \<and> list_all is_digit (take 4 s))"

text \<open>\<open>strptime(str(date), '%Y-%m-%d').date().strftime('%Y')\<close>\<close>

definition year_of_date :: "string \<Rightarrow> error + date_arg" where
  "year_of_date fullDate =
     (case strptime_Ymd fullDate of
        None \<Rightarrow> Inl strptime_error
      | Some d \<Rightarrow> Inr (DStr (strftime_Y d)))"

text \<open>Lines 456--468\<close>

definition year_arg :: "date_arg \<Rightarrow> error + date_arg" where
  "year_arg date =
     (if date \<noteq> DNone \<and> \<not> re_match_year (py_str date) then
        (if is_date date then year_of_date (py_str date)
         else if date \<noteq> DNone \<and> re_match_date (py_str date) then year_of_date (py_str date)
         else Inl (ValueError (Some ''Date argument is not in YYYY'')))
      else Inr date)"

text \<open>\<open>if self.name in ye and int(date) < y: date = y\<close>\<close>

definition clamp_first :: "string \<Rightarrow> string list \<Rightarrow> int \<Rightarrow> date_arg \<Rightarrow> error + date_arg" where
  "clamp_first nm ye y date =
     (if nm \<in> set ye then
        (case int_of date of
           Inl err \<Rightarrow> Inl err
         | Inr n \<Rightarrow> if n < y then Inr (DInt y) else Inr date)
      else Inr date)"

text \<open>The nine tests of lines 482--499, in their order\<close>

definition first_charts :: "year_end_first_charts \<Rightarrow> (string list \<times> int) list" where
  "first_charts tbl =
     [(ye2002 tbl, 2002), (ye2006 tbl, 2006), (ye2008 tbl, 2008), (ye2009 tbl, 2009),
      (ye2010 tbl, 2010), (ye2011 tbl, 2011), (ye2012 tbl, 2012), (ye2013 tbl, 2013),
      (ye2014 tbl, 2014)]"

fun clamp_all :: "string \<Rightarrow> (string list \<times> int) list \<Rightarrow> date_arg \<Rightarrow> error + date_arg" where
  "clamp_all nm [] date = Inr date"
| "clamp_all nm ((ye, y) # rest) date =
     (case clamp_first nm ye y date of
        Inl err \<Rightarrow> Inl err
      | Inr date' \<Rightarrow> clamp_all nm rest date')"

text \<open>
  Lines 456--502: the value of \<open>self.date\<close>.  \<open>now_year\<close> is \<open>datetime.now().year\<close>,
  read in the same year by both calls.
\<close>

definition YearEnd_date ::
  "year_end_first_charts \<Rightarrow> int \<Rightarrow> string \<Rightarrow> date_arg \<Rightarrow> error + string" where
  "YearEnd_date tbl now_year nm date =
     (case year_arg date of
        Inl err \<Rightarrow> Inl err
      | Inr date1 \<Rightarrow>
          (let date2 = (if date1 = DNone then DInt (now_year - 1) else date1);
               currentYear = now_year - 1
           in case int_of date2 of
                Inl err \<Rightarrow> Inl err
              | Inr n \<Rightarrow>
                  (case clamp_all nm (first_charts tbl)
                          (if n > currentYear then DInt currentYear else date2) of
                     Inl err \<Rightarrow> Inl err
                   | Inr date3 \<Rightarrow> Inr (py_str date3))))"

text \<open>\<open>int(self.date)\<close>\<close>

definition int_of_date :: "string option \<Rightarrow> error + int" where
  "int_of_date d =
     (case d of
        None \<Rightarrow> Inl TypeError
      | Some s \<Rightarrow> int_of (DStr s))"

definition year_end_url :: "chart_data \<Rightarrow> string" where
  "year_end_url s =
     ''http://www.billboard.com/charts/year-end/''
       @ (case self_date s of None \<Rightarrow> ''None'' | Some d \<Rightarrow> d) @ ''/'' @ self_name s"

text \<open>Lines 566--585: the neighbouring years\<close>

definition adjacent_years :: "int \<Rightarrow> int \<Rightarrow> chart_data \<Rightarrow> chart_data" where
  "adjacent_years currentYear y s =
     (let s1 = (if y \<noteq> 0 then s\<lparr>self_previousDate := Some (py_str_int (y - 1))\<rparr> else s)
      in if y \<noteq> 0 \<and> y \<noteq> currentYear then s1\<lparr>self_nextDate := Some (py_str_int (y + 1))\<rparr>
         else s1)"

text \<open>\<open>YearEnd.fetchEntries\<close>\<close>

definition YearEnd_fetchEntries ::
  "(string \<Rightarrow> response) \<Rightarrow> int \<Rightarrow> chart_data \<Rightarrow> error option \<times> chart_data" where
  "YearEnd_fetchEntries http now_year s =
     (case check_status (http (year_end_url s)) of
        Inl err \<Rightarrow> (Some err, s)
      | Inr soup \<Rightarrow>
          (case parsePage soup s of
             (Some err, s1) \<Rightarrow> (Some err, s1)
           | (None, s1) \<Rightarrow>
               (case parse_page_date (date_button soup) s1 of
                  Inl err \<Rightarrow> (Some err, s1)
                | Inr s2 \<Rightarrow>
                    (case int_of_date (self_date s2) of
                       Inl err \<Rightarrow> (Some err, s2)
                     | Inr y \<Rightarrow>
                         (let s3 = adjacent_years (now_year - 1) y s2
                          in case parse_loop parseYearEndEntry (ye_chart_items soup) (self_entries s3) of
                               (r, es) \<Rightarrow> (r, s3\<lparr>self_entries := es\<rparr>))))))"

text \<open>\<open>YearEnd.__init__\<close>, which assigns neither \<open>title\<close> nor \<open>nextDate\<close>\<close>

definition YearEnd_init ::
  "year_end_first_charts \<Rightarrow> (string \<Rightarrow> response) \<Rightarrow> int \<Rightarrow> string \<Rightarrow> date_arg \<Rightarrow> bool
     \<Rightarrow> error + chart_data" where
  "YearEnd_init tbl http now_year nm date fetch =
     (case YearEnd_date tbl now_year nm date of
        Inl err \<Rightarrow> Inl err
      | Inr d \<Rightarrow>
          (let s = \<lparr>self_name = nm, self_date = Some d, self_title = None,
                    self_previousDate = None, self_nextDate = None, self_entries = []\<rparr>
           in if fetch then
                (case YearEnd_fetchEntries http now_year s of
                   (Some err, s') \<Rightarrow> Inl err
                 | (None, s') \<Rightarrow> Inr s')
              else Inr s))"

section \<open>The properties, in the words of the specification\<close>

subsection \<open>Layouts\<close>

datatype layout = OldStyle | NewStyle

text \<open>A page with a table element is old-style, any other page is new-style.\<close>

definition classify :: "document \<Rightarrow> layout" where
  "classify soup = (if 0 < tables soup then OldStyle else NewStyle)"

text \<open>The date element that the parser of the layout reads\<close>

definition layout_date_button :: "document \<Rightarrow> string option" where
  "layout_date_button soup =
     (case classify soup of
        OldStyle \<Rightarrow> date_button soup
      | NewStyle \<Rightarrow> date_button_new soup)"


subsection \<open>Ministats\<close>

text \<open>
  The cell of an old-style entry for a field is the first one whose heading, trimmed
  and in lower case, is the field; it reads the trimmed text before the first
  non-breaking space.  The cell of a new-style entry is the string of the span of the
  attribute.
\<close>

definition heading_is :: "string \<Rightarrow> ministats_cell \<Rightarrow> bool" where
  "heading_is fieldName c =
     (case cell_heading c of
        None \<Rightarrow> False
      | Some h \<Rightarrow> py_lower (py_strip h) = fieldName)"

definition cell_reads :: "ministats_cell \<Rightarrow> string" where
  "cell_reads c = py_strip (first_field (CHR 0xA0) (cell_text c))"

definition old_cell :: "old_item \<Rightarrow> string \<Rightarrow> string option" where
  "old_cell e fieldName = map_option cell_reads (find (heading_is fieldName) (item_cells e))"

definition new_cell :: "new_item \<Rightarrow> string \<Rightarrow> string option" where
  "new_cell e attribute =
     (case item_meta e attribute of
        Some (Some str) \<Rightarrow> Some str
      | _ \<Rightarrow> None)"

text \<open>
  The default when the cell is missing or reads \<open>-\<close>, else the trimmed cell as an
  integer (\<open>None\<close> when it does not hold one).
\<close>

definition ministat_value :: "pyval \<Rightarrow> string option \<Rightarrow> pyval option" where
  "ministat_value dflt cell =
     (case cell of
        None \<Rightarrow> Some dflt
      | Some t \<Rightarrow> if t = ''-'' then Some dflt else map_option VInt (py_int (py_strip t)))"

subsection \<open>The field of an entry that fails\<close>







subsection \<open>Year resolution\<close>

text \<open>A string \<open>YYYY-MM-DD\<close> that is a date of the calendar\<close>

definition is_iso_date :: "string \<Rightarrow> bool" where
  "is_iso_date s =
     (length s = 10 \<and> re_match_date s \<and>
      valid_date (tok_val (take 4 s)) (tok_val (take 2 (drop 5 s))) (tok_val (drop 8 s)))"

text \<open>
  The year that an accepted date argument names: the previous year for \<open>None\<close>, a bare
  year of four digits, the year of a calendar date written \<open>YYYY-MM-DD\<close>, the year of a
  date value.
\<close>

definition accepted_year :: "int \<Rightarrow> date_arg \<Rightarrow> int option" where
  "accepted_year now_year date =
     (case date of
        DNone \<Rightarrow> Some (now_year - 1)
      | DStr s \<Rightarrow>
          if length s = 4 \<and> list_all is_digit s then Some (tok_val s)
          else if is_iso_date s then Some (tok_val (take 4 s))
          else None
      | DInt n \<Rightarrow> if 1000 \<le> n \<and> n \<le> 9999 then Some n else None
      | DDate y m d \<Rightarrow> if valid_date y m d then Some y else None)"

text \<open>The epoch years of the lists that hold the chart name\<close>

definition chart_epochs :: "year_end_first_charts \<Rightarrow> string \<Rightarrow> int list" where
  "chart_epochs tbl nm = map snd (filter (\<lambda>p. nm \<in> set (fst p)) (first_charts tbl))"

text \<open>
  Clamped down to the latest available year, then up to the epoch years of the chart.
\<close>

definition resolved_year :: "year_end_first_charts \<Rightarrow> int \<Rightarrow> string \<Rightarrow> int \<Rightarrow> int" where
  "resolved_year tbl now_year nm y = foldl max (min y (now_year - 1)) (chart_epochs tbl nm)"

section \<open>Sample pages\<close>

definition sample_charts :: year_end_first_charts where
  "sample_charts =
     \<lparr>ye2002 = [''hot-latin-songs''], ye2006 = [''hot-100-songs''], ye2008 = [],
      ye2009 = [], ye2010 = [], ye2011 = [], ye2012 = [], ye2013 = [],
      ye2014 = [''streaming-songs'']\<rparr>"

definition sample_cells :: "ministats_cell list" where
  "sample_cells =
     [\<lparr>cell_heading = Some ''Peak'', cell_text = ''-''\<rparr>,
      \<lparr>cell_heading = Some '' WEEKS '', cell_text = ''3'' @ [CHR 0xA0] @ ''weeks''\<rparr>]"

definition sample_item :: old_item where
  "sample_item =
     \<lparr>attr_title = Some ''Artist X'', attr_artist = Some '' '',
      item_image = Some \<lparr>attr_data_src = None, attr_src = Some ''a.jpg''\<rparr>,
      attr_rank = Some ''1'', item_cells = sample_cells\<rparr>"

definition sample_item_no_title :: old_item where
  "sample_item_no_title = sample_item\<lparr>attr_title := None\<rparr>"

definition sample_new_item :: new_item where
  "sample_new_item =
     \<lparr>span_song = Some ''Song Y'', span_artist = Some ''Artist Y'', span_rank = Some ''2'',
      item_meta = (\<lambda>a. if a = ''week'' then Some (Some ''1'')
                       else if a = ''peak'' then Some (Some ''-'') else None)\<rparr>"

definition sample_ye_item :: ye_item where
  "sample_ye_item = \<lparr>ye_title = Some ''Song Z'', ye_artist = Some ''Artist Z'', ye_rank = Some ''7''\<rparr>"

definition sample_page :: document where
  "sample_page =
     \<lparr>meta_title = Some ''Hot 100 Chart | Billboard'', tables = 1,
      date_button = Some ''January 05, 2019'', date_button_new = None,
      prev_href = Some ''/charts/hot-100/2018-12-29'', next_href = None,
      chart_list_items = [sample_item, sample_item_no_title],
      chart_list_elements = [], ye_chart_items = []\<rparr>"

definition sample_ye_page :: document where
  "sample_ye_page =
     \<lparr>meta_title = None, tables = 0, date_button = None, date_button_new = None,
      prev_href = None, next_href = None, chart_list_items = [],
      chart_list_elements = [], ye_chart_items = [sample_ye_item]\<rparr>"

text \<open>A page with a table that has the date element of the new layout only\<close>

definition sample_hybrid_page :: document where
  "sample_hybrid_page =
     \<lparr>meta_title = None, tables = 1, date_button = None,
      date_button_new = Some ''January 05, 2019'',
      prev_href = None, next_href = None, chart_list_items = [],
      chart_list_elements = [], ye_chart_items = []\<rparr>"


definition sample_http :: "document \<Rightarrow> string \<Rightarrow> response" where
  "sample_http page url = Response 200 page"

definition sample_chart :: chart_data where
  "sample_chart =
     \<lparr>self_name = ''hot-100'', self_date = Some ''2019-01-02'', self_title = Some [],
      self_previousDate = None, self_nextDate = None, self_entries = []\<rparr>"

definition sample_year_end :: "string \<Rightarrow> chart_data" where
  "sample_year_end d =
     \<lparr>self_name = ''hot-100-songs'', self_date = Some d, self_title = None,
      self_previousDate = None, self_nextDate = None, self_entries = []\<rparr>"

definition sample_entry :: py_obj where
  "sample_entry =
     ChartEntry_init (VStr []) (VStr ''Artist X'') (VStr ''a.jpg'') VNone (VInt 0) (VInt 3)
       (VInt 1) (VBool False)"

definition sample_entry_undated :: py_obj where
  "sample_entry_undated =
     ChartEntry_init (VStr []) (VStr ''Artist X'') (VStr ''a.jpg'') VNone VNone VNone
       (VInt 1) (VBool False)"

definition sample_new_entry :: py_obj where
  "sample_new_entry =
     ChartEntry_init (VStr ''Song Y'') (VStr ''Artist Y'') VNone VNone (VInt 0) (VInt 1)
       (VInt 2) (VBool True)"

definition sample_new_entry_undated :: py_obj where
  "sample_new_entry_undated =
     ChartEntry_init (VStr ''Song Y'') (VStr ''Artist Y'') VNone VNone VNone VNone
       (VInt 2) (VBool False)"

definition sample_ye_entry :: py_obj where
  "sample_ye_entry = YearEndChartEntry_init (VStr ''Song Z'') (VStr ''Artist Z'') (VInt 7)"

section \<open>Digits and integers\<close>

lemma is_digit_digit_char: "k < 10 \<Longrightarrow> is_digit (digit_char k)"
  by (simp add: digit_char_def is_digit_def)

lemma digit_val_digit_char: "k < 10 \<Longrightarrow> digit_val (digit_char k) = int k"
  by (simp add: digit_char_def digit_val_def)

lemma is_digit_not_space: "is_digit c \<Longrightarrow> \<not> py_isspace c \<and> \<not> int_isspace c"
  by (auto simp: is_digit_def py_isspace_def int_isspace_def)

lemma is_digit_not_sign: "is_digit c \<Longrightarrow> c \<noteq> CHR ''-'' \<and> c \<noteq> CHR ''+'' \<and> c \<noteq> CHR ''_'' \<and> c \<noteq> CHR '' '' \<and> c \<noteq> CHR 0x0A"
  by (auto simp: is_digit_def)

lemma digits_of_all: "list_all is_digit (digits_of n)"
  by (induction n rule: digits_of.induct) (subst digits_of.simps, simp add: is_digit_digit_char)

lemma digits_of_nonempty: "digits_of n \<noteq> []"
  by (subst digits_of.simps) simp

lemma tok_val_append: "tok_val (xs @ [c]) = tok_val xs * 10 + digit_val c"
  by (simp add: tok_val_def)

lemma tok_val_digits_of: "tok_val (digits_of n) = int n"
proof (induction n rule: digits_of.induct)
  case (1 n)
  show ?case
  proof (cases "n < 10")
    case True
    then show ?thesis by (subst digits_of.simps) (simp add: tok_val_def digit_val_digit_char)
  next
    case False
    with 1 have "tok_val (digits_of (n div 10)) = int (n div 10)" by simp
    moreover have "int (n div 10) * 10 + int (n mod 10) = int n" by presburger
    ultimately show ?thesis using False
      by (subst digits_of.simps) (simp add: tok_val_append digit_val_digit_char)
  qed
qed

lemma parse_digits_all:
  "list_all is_digit ds \<Longrightarrow> parse_digits acc ds = Some (foldl (\<lambda>a c. a * 10 + digit_val c) acc ds)"
  by (induction ds arbitrary: acc) simp_all

lemma parse_digits_stop:
  "list_all is_digit ds \<Longrightarrow> \<not> is_digit c \<Longrightarrow> c \<noteq> CHR ''_'' \<Longrightarrow> parse_digits acc (ds @ c # rest) = None"
  by (induction ds arbitrary: acc) simp_all

lemma parse_unsigned_digits:
  "list_all is_digit ds \<Longrightarrow> ds \<noteq> [] \<Longrightarrow> parse_unsigned ds = Some (tok_val ds)"
  by (cases ds) (simp_all add: parse_unsigned_def tok_val_def parse_digits_all)

lemma strip_chars_id:
  "s \<noteq> [] \<Longrightarrow> \<not> P (hd s) \<Longrightarrow> \<not> P (last s) \<Longrightarrow> strip_chars P s = s"
proof -
  assume a: "s \<noteq> []" "\<not> P (hd s)" "\<not> P (last s)"
  then have 1: "dropWhile P s = s" by (cases s) simp_all
  from a have "rev s \<noteq> []" "\<not> P (hd (rev s))" by (simp_all add: hd_rev)
  then have 2: "dropWhile P (rev s) = rev s" by (cases "rev s") simp_all
  show ?thesis by (simp add: strip_chars_def 1 2)
qed

lemma strip_chars_idem: "strip_chars P (strip_chars P s) = strip_chars P s"
proof -
  define t where "t = dropWhile P s"
  define u where "u = dropWhile P (rev t)"
  have "rev t = takeWhile P (rev t) @ u" by (simp add: u_def)
  then have t: "t = rev u @ rev (takeWhile P (rev t))"
    by (metis rev_append rev_rev_ident)
  have 1: "dropWhile P (rev u) = rev u"
  proof (cases "u = []")
    case True
    then show ?thesis by simp
  next
    case False
    then have "hd (rev u) = hd t" using t by (metis hd_append2 rev_is_Nil_conv)
    moreover have "t \<noteq> []" using False t by auto
    then have "\<not> P (hd t)" unfolding t_def by (rule hd_dropWhile)
    ultimately show ?thesis using False by (cases "rev u") auto
  qed
  have 2: "dropWhile P u = u" by (simp add: u_def)
  show ?thesis by (simp add: strip_chars_def t_def[symmetric] u_def[symmetric] 1 2)
qed

lemma strip_chars_digits: "list_all is_digit ds \<Longrightarrow> P = py_isspace \<or> P = int_isspace \<Longrightarrow> strip_chars P ds = ds"
proof (cases "ds = []")
  case True then show ?thesis by (simp add: strip_chars_def)
next
  case False
  assume "list_all is_digit ds" and P: "P = py_isspace \<or> P = int_isspace"
  with False have "is_digit (hd ds)" "is_digit (last ds)" by (auto simp: list_all_iff)
  with False P show ?thesis by (intro strip_chars_id) (auto dest: is_digit_not_space)
qed

lemma py_int_digits:
  assumes "list_all is_digit ds" "ds \<noteq> []"
  shows "py_int ds = Some (tok_val ds)"
proof -
  from assms obtain c cs where ds: "ds = c # cs" by (cases ds) auto
  with assms have "is_digit c" by simp
  then have "c \<noteq> CHR ''-''" "c \<noteq> CHR ''+''" using is_digit_not_sign by auto
  moreover have "strip_chars int_isspace ds = c # cs"
    using assms(1) ds by (simp add: strip_chars_digits)
  ultimately have "py_int ds = parse_unsigned ds" by (simp add: py_int_def ds)
  then show ?thesis using assms by (simp add: parse_unsigned_digits)
qed

section \<open>Entries\<close>

lemma or_fail_Inr: "or_fail v f = Inr x \<longleftrightarrow> v = Some x"
  by (simp add: or_fail_def split: option.splits)

lemma or_fail_Inl: "or_fail v f = Inl err \<longleftrightarrow> v = None \<and> err = BillboardParseException (''Failed to parse '' @ f)"
  by (auto simp: or_fail_def split: option.splits)

lemma ChartEntry_init_attrs:
  "ChartEntry_init t a i p l w r n ''title'' = Some t"
  "ChartEntry_init t a i p l w r n ''artist'' = Some a"
  "ChartEntry_init t a i p l w r n ''image'' = Some i"
  "ChartEntry_init t a i p l w r n ''peakPos'' = Some p"
  "ChartEntry_init t a i p l w r n ''lastPos'' = Some l"
  "ChartEntry_init t a i p l w r n ''weeks'' = Some w"
  "ChartEntry_init t a i p l w r n ''rank'' = Some r"
  "ChartEntry_init t a i p l w r n ''isNew'' = Some n"
  by (simp_all add: ChartEntry_init_def)

lemma YearEndChartEntry_init_attrs:
  "YearEndChartEntry_init t a r ''title'' = Some t"
  "YearEndChartEntry_init t a r ''artist'' = Some a"
  "YearEndChartEntry_init t a r ''rank'' = Some r"
  "YearEndChartEntry_init t a r ''image'' = None"
  "YearEndChartEntry_init t a r ''peakPos'' = None"
  "YearEndChartEntry_init t a r ''lastPos'' = None"
  "YearEndChartEntry_init t a r ''weeks'' = None"
  "YearEndChartEntry_init t a r ''isNew'' = None"
  by (simp_all add: YearEndChartEntry_init_def)

lemma YearEndChartEntry_init_dom:
  "dom (YearEndChartEntry_init t a r) = {''title'', ''artist'', ''rank''}"
  unfolding YearEndChartEntry_init_def
  by (simp only: dom_fun_upd dom_empty option.simps if_False) blast

lemma parseYearEndEntry_Inr:
  assumes "parseYearEndEntry e = Inr entry"
  shows "\<exists>t a r. ye_title e = Some t \<and> ye_artist e = Some a \<and>
           entry = YearEndChartEntry_init (VStr (fst (swap_empty (py_strip t) (py_strip a))))
                     (VStr (snd (swap_empty (py_strip t) (py_strip a)))) (VInt r)"
  using assms unfolding parseYearEndEntry_def
  by (auto simp: or_fail_def split: option.splits sum.splits prod.splits)

lemma parseOldEntry_Inr:
  assumes "parseOldEntry dated e = Inr entry"
  shows "\<exists>t a img r p l w. attr_title e = Some t \<and> attr_artist e = Some a \<and>
           old_image e = Some img \<and>
           (if dated then getMinistatsCellValue (item_cells e) ''peak'' VNone = Inr p \<and>
                          getMinistatsCellValue (item_cells e) ''last'' (VInt 0) = Inr l \<and>
                          getMinistatsCellValue (item_cells e) ''weeks'' (VInt 1) = Inr w
            else p = VNone \<and> l = VNone \<and> w = VNone) \<and>
           entry = ChartEntry_init (VStr (fst (swap_empty (py_strip t) (py_strip a))))
                     (VStr (snd (swap_empty (py_strip t) (py_strip a)))) (VStr img) p l w (VInt r)
                     (VBool (dated \<and> w = VInt 1))"
  using assms unfolding parseOldEntry_def
  by (auto simp: or_fail_Inr split: sum.splits prod.splits if_splits)

lemma parseNewEntry_Inr:
  assumes "parseNewEntry dated e = Inr entry"
  shows "\<exists>t a r p l w. span_song e = Some t \<and> span_artist e = Some a \<and>
           (if dated then getMeta e ''peak'' VNone = Inr p \<and>
                          getMeta e ''last'' (VInt 0) = Inr l \<and>
                          getMeta e ''week'' (VInt 1) = Inr w
            else p = VNone \<and> l = VNone \<and> w = VNone) \<and>
           entry = ChartEntry_init (VStr (fst (swap_empty (py_strip t) (py_strip a))))
                     (VStr (snd (swap_empty (py_strip t) (py_strip a)))) VNone p l w (VInt r)
                     (VBool (dated \<and> w = VInt 1))"
  using assms unfolding parseNewEntry_def
  by (auto simp: or_fail_Inr split: sum.splits prod.splits if_splits)

lemma swap_empty_fields:
  "fst (swap_empty t a) = (if a = [] then [] else t)"
  "snd (swap_empty t a) = (if a = [] then t else a)"
  by (simp_all add: swap_empty_def)

lemma sample_old_dated: "parseOldEntry True sample_item = Inr sample_entry"
  unfolding sample_entry_def
proof -
  have "py_strip ''Artist X'' = ''Artist X''" "py_strip '' '' = []" "py_int (py_strip ''1'') = Some 1"
    by code_simp+
  moreover have "getMinistatsCellValue sample_cells ''peak'' VNone = Inr VNone"
    "getMinistatsCellValue sample_cells ''last'' (VInt 0) = Inr (VInt 0)"
    "getMinistatsCellValue sample_cells ''weeks'' (VInt 1) = Inr (VInt 3)"
    by code_simp+
  ultimately show "parseOldEntry True sample_item =
     Inr (ChartEntry_init (VStr []) (VStr ''Artist X'') (VStr ''a.jpg'') VNone (VInt 0) (VInt 3)
            (VInt 1) (VBool False))"
    by (simp add: parseOldEntry_def sample_item_def or_fail_def old_image_def swap_empty_def)
qed

lemma sample_old_undated: "parseOldEntry False sample_item = Inr sample_entry_undated"
proof -
  have "py_strip ''Artist X'' = ''Artist X''" "py_strip '' '' = []" "py_int (py_strip ''1'') = Some 1"
    by code_simp+
  then show ?thesis
    by (simp add: parseOldEntry_def sample_item_def or_fail_def old_image_def swap_empty_def
          sample_entry_undated_def)
qed

lemma sample_new_dated: "parseNewEntry True sample_new_item = Inr sample_new_entry"
proof -
  have "py_strip ''Song Y'' = ''Song Y''" "py_strip ''Artist Y'' = ''Artist Y''"
    "py_int (py_strip ''2'') = Some 2"
    by code_simp+
  moreover have "getMeta sample_new_item ''peak'' VNone = Inr VNone"
    "getMeta sample_new_item ''last'' (VInt 0) = Inr (VInt 0)"
    "getMeta sample_new_item ''week'' (VInt 1) = Inr (VInt 1)"
    by code_simp+
  ultimately show ?thesis
    by (simp add: parseNewEntry_def sample_new_item_def or_fail_def swap_empty_def
          sample_new_entry_def)
qed

lemma sample_new_undated: "parseNewEntry False sample_new_item = Inr sample_new_entry_undated"
proof -
  have "py_strip ''Song Y'' = ''Song Y''" "py_strip ''Artist Y'' = ''Artist Y''"
    "py_int (py_strip ''2'') = Some 2"
    by code_simp+
  then show ?thesis
    by (simp add: parseNewEntry_def sample_new_item_def or_fail_def swap_empty_def
          sample_new_entry_undated_def)
qed

lemma sample_year_end_entry: "parseYearEndEntry sample_ye_item = Inr sample_ye_entry"
proof -
  have "py_strip ''Song Z'' = ''Song Z''" "py_strip ''Artist Z'' = ''Artist Z''"
    "py_int (py_strip ''7'') = Some 7"
    by code_simp+
  then show ?thesis
    by (simp add: parseYearEndEntry_def sample_ye_item_def or_fail_def swap_empty_def
          sample_ye_entry_def)
qed

text \<open>
  C9.  An entry of a year-end chart has the attributes \<open>title\<close>, \<open>artist\<close> and \<open>rank\<close>
  and no other: \<open>image\<close>, \<open>peakPos\<close>, \<open>lastPos\<close>, \<open>weeks\<close> and \<open>isNew\<close> are not
  attributes of it at all, rather than attributes that hold \<open>None\<close>.
\<close>

theorem year_end_entry_attributes:
  "dom (YearEndChartEntry_init title artist rank) = {''title'', ''artist'', ''rank''} \<and>
   (parseYearEndEntry e = Inr entry \<longrightarrow>
      dom entry = {''title'', ''artist'', ''rank''} \<and>
      entry ''image'' = None \<and> entry ''peakPos'' = None \<and> entry ''lastPos'' = None \<and>
      entry ''weeks'' = None \<and> entry ''isNew'' = None)"
proof (intro conjI impI)
  show "dom (YearEndChartEntry_init title artist rank) = {''title'', ''artist'', ''rank''}"
    by (rule YearEndChartEntry_init_dom)
next
  assume "parseYearEndEntry e = Inr entry"
  then obtain t a r where entry: "entry = YearEndChartEntry_init t a r"
    using parseYearEndEntry_Inr by blast
  show "dom entry = {''title'', ''artist'', ''rank''}"
    unfolding entry by (rule YearEndChartEntry_init_dom)
  show "entry ''image'' = None" "entry ''peakPos'' = None" "entry ''lastPos'' = None"
    "entry ''weeks'' = None" "entry ''isNew'' = None"
    unfolding entry by (rule YearEndChartEntry_init_attrs)+
qed

theorem year_end_entry_attributes_witness:
  "parseYearEndEntry sample_ye_item = Inr sample_ye_entry \<and>
   dom sample_ye_entry = {''title'', ''artist'', ''rank''} \<and>
   sample_ye_entry ''image'' = None \<and> sample_ye_entry ''peakPos'' = None \<and>
   sample_ye_entry ''lastPos'' = None \<and> sample_ye_entry ''weeks'' = None \<and>
   sample_ye_entry ''isNew'' = None"
  using year_end_entry_attributes [of _ _ _ sample_ye_item sample_ye_entry] sample_year_end_entry
  by blast

text \<open>
  C4.  In the three entry parsers, an artist that is empty once trimmed swaps the
  fields: the entry has the extracted title as its artist and the empty string as its
  title.  Otherwise title and artist are the extracted ones.
\<close>

theorem swap_rule:
  "(parseOldEntry dated e = Inr entry \<and> attr_title e = Some t \<and> attr_artist e = Some a \<longrightarrow>
      (if py_strip a = []
       then entry ''artist'' = Some (VStr (py_strip t)) \<and> entry ''title'' = Some (VStr [])
       else entry ''title'' = Some (VStr (py_strip t)) \<and>
            entry ''artist'' = Some (VStr (py_strip a)))) \<and>
   (parseNewEntry dated' e' = Inr entry' \<and> span_song e' = Some t' \<and> span_artist e' = Some a' \<longrightarrow>
      (if py_strip a' = []
       then entry' ''artist'' = Some (VStr (py_strip t')) \<and> entry' ''title'' = Some (VStr [])
       else entry' ''title'' = Some (VStr (py_strip t')) \<and>
            entry' ''artist'' = Some (VStr (py_strip a')))) \<and>
   (parseYearEndEntry e'' = Inr entry'' \<and> ye_title e'' = Some t'' \<and> ye_artist e'' = Some a'' \<longrightarrow>
      (if py_strip a'' = []
       then entry'' ''artist'' = Some (VStr (py_strip t'')) \<and> entry'' ''title'' = Some (VStr [])
       else entry'' ''title'' = Some (VStr (py_strip t'')) \<and>
            entry'' ''artist'' = Some (VStr (py_strip a''))))"
proof (intro conjI impI)
  assume "parseOldEntry dated e = Inr entry \<and> attr_title e = Some t \<and> attr_artist e = Some a"
  then obtain img r p l w where
    "entry = ChartEntry_init (VStr (fst (swap_empty (py_strip t) (py_strip a))))
               (VStr (snd (swap_empty (py_strip t) (py_strip a)))) (VStr img) p l w (VInt r)
               (VBool (dated \<and> w = VInt 1))"
    using parseOldEntry_Inr [of dated e entry] by auto
  then show "if py_strip a = []
       then entry ''artist'' = Some (VStr (py_strip t)) \<and> entry ''title'' = Some (VStr [])
       else entry ''title'' = Some (VStr (py_strip t)) \<and>
            entry ''artist'' = Some (VStr (py_strip a))"
    by (simp add: ChartEntry_init_attrs swap_empty_fields)
next
  assume "parseNewEntry dated' e' = Inr entry' \<and> span_song e' = Some t' \<and> span_artist e' = Some a'"
  then obtain r p l w where
    "entry' = ChartEntry_init (VStr (fst (swap_empty (py_strip t') (py_strip a'))))
               (VStr (snd (swap_empty (py_strip t') (py_strip a')))) VNone p l w (VInt r)
               (VBool (dated' \<and> w = VInt 1))"
    using parseNewEntry_Inr [of dated' e' entry'] by auto
  then show "if py_strip a' = []
       then entry' ''artist'' = Some (VStr (py_strip t')) \<and> entry' ''title'' = Some (VStr [])
       else entry' ''title'' = Some (VStr (py_strip t')) \<and>
            entry' ''artist'' = Some (VStr (py_strip a'))"
    by (simp add: ChartEntry_init_attrs swap_empty_fields)
next
  assume "parseYearEndEntry e'' = Inr entry'' \<and> ye_title e'' = Some t'' \<and> ye_artist e'' = Some a''"
  then obtain r where
    "entry'' = YearEndChartEntry_init (VStr (fst (swap_empty (py_strip t'') (py_strip a''))))
               (VStr (snd (swap_empty (py_strip t'') (py_strip a'')))) (VInt r)"
    using parseYearEndEntry_Inr [of e'' entry''] by auto
  then show "if py_strip a'' = []
       then entry'' ''artist'' = Some (VStr (py_strip t'')) \<and> entry'' ''title'' = Some (VStr [])
       else entry'' ''title'' = Some (VStr (py_strip t'')) \<and>
            entry'' ''artist'' = Some (VStr (py_strip a''))"
    by (simp add: YearEndChartEntry_init_attrs swap_empty_fields)
qed

theorem swap_rule_witness:
  "(parseOldEntry True sample_item = Inr sample_entry \<and>
    attr_title sample_item = Some ''Artist X'' \<and> attr_artist sample_item = Some '' '') \<and>
   py_strip '' '' = [] \<and>
   sample_entry ''artist'' = Some (VStr ''Artist X'') \<and> sample_entry ''title'' = Some (VStr []) \<and>
   (parseNewEntry True sample_new_item = Inr sample_new_entry \<and>
    span_song sample_new_item = Some ''Song Y'' \<and> span_artist sample_new_item = Some ''Artist Y'') \<and>
   sample_new_entry ''title'' = Some (VStr ''Song Y'') \<and>
   sample_new_entry ''artist'' = Some (VStr ''Artist Y'') \<and>
   (parseYearEndEntry sample_ye_item = Inr sample_ye_entry \<and>
    ye_title sample_ye_item = Some ''Song Z'' \<and> ye_artist sample_ye_item = Some ''Artist Z'') \<and>
   sample_ye_entry ''title'' = Some (VStr ''Song Z'') \<and>
   sample_ye_entry ''artist'' = Some (VStr ''Artist Z'')"
proof -
  have strips: "py_strip ''Artist X'' = ''Artist X''" "py_strip '' '' = []"
    "py_strip ''Song Y'' = ''Song Y''" "py_strip ''Artist Y'' = ''Artist Y''"
    "py_strip ''Song Z'' = ''Song Z''" "py_strip ''Artist Z'' = ''Artist Z''"
    by code_simp+
  have fields: "attr_title sample_item = Some ''Artist X''" "attr_artist sample_item = Some '' ''"
    "span_song sample_new_item = Some ''Song Y''" "span_artist sample_new_item = Some ''Artist Y''"
    "ye_title sample_ye_item = Some ''Song Z''" "ye_artist sample_ye_item = Some ''Artist Z''"
    by (simp_all add: sample_item_def sample_new_item_def sample_ye_item_def)
  show ?thesis
    using swap_rule [of True sample_item sample_entry "''Artist X''" "'' ''"
        True sample_new_item sample_new_entry "''Song Y''" "''Artist Y''"
        sample_ye_item sample_ye_entry "''Song Z''" "''Artist Z''"]
      sample_old_dated sample_new_dated sample_year_end_entry
    by (simp add: strips fields)
qed

text \<open>
  C5.  An entry of a dated snapshot is new exactly when its weeks, after the default,
  are 1.  An entry of an undated snapshot has \<open>None\<close> for peak, last and weeks and is not
  new, and the ministats of the page are not read for it.
\<close>

theorem is_new_rule:
  "(parseOldEntry True e = Inr entry \<longrightarrow>
      entry ''isNew'' = Some (VBool (entry ''weeks'' = Some (VInt 1)))) \<and>
   (parseNewEntry True e' = Inr entry' \<longrightarrow>
      entry' ''isNew'' = Some (VBool (entry' ''weeks'' = Some (VInt 1)))) \<and>
   (parseOldEntry False e = Inr entry0 \<longrightarrow>
      entry0 ''peakPos'' = Some VNone \<and> entry0 ''lastPos'' = Some VNone \<and>
      entry0 ''weeks'' = Some VNone \<and> entry0 ''isNew'' = Some (VBool False)) \<and>
   (parseNewEntry False e' = Inr entry0' \<longrightarrow>
      entry0' ''peakPos'' = Some VNone \<and> entry0' ''lastPos'' = Some VNone \<and>
      entry0' ''weeks'' = Some VNone \<and> entry0' ''isNew'' = Some (VBool False)) \<and>
   parseOldEntry False (e\<lparr>item_cells := cells\<rparr>) = parseOldEntry False e \<and>
   parseNewEntry False (e'\<lparr>item_meta := meta\<rparr>) = parseNewEntry False e'"
proof (intro conjI impI)
  assume "parseOldEntry True e = Inr entry"
  from parseOldEntry_Inr [OF this]
  show "entry ''isNew'' = Some (VBool (entry ''weeks'' = Some (VInt 1)))"
    by (auto simp: ChartEntry_init_attrs)
next
  assume "parseNewEntry True e' = Inr entry'"
  from parseNewEntry_Inr [OF this]
  show "entry' ''isNew'' = Some (VBool (entry' ''weeks'' = Some (VInt 1)))"
    by (auto simp: ChartEntry_init_attrs)
next
  assume "parseOldEntry False e = Inr entry0"
  from parseOldEntry_Inr [OF this]
  show "entry0 ''peakPos'' = Some VNone" "entry0 ''lastPos'' = Some VNone"
    "entry0 ''weeks'' = Some VNone" "entry0 ''isNew'' = Some (VBool False)"
    by (auto simp: ChartEntry_init_attrs)
next
  assume "parseNewEntry False e' = Inr entry0'"
  from parseNewEntry_Inr [OF this]
  show "entry0' ''peakPos'' = Some VNone" "entry0' ''lastPos'' = Some VNone"
    "entry0' ''weeks'' = Some VNone" "entry0' ''isNew'' = Some (VBool False)"
    by (auto simp: ChartEntry_init_attrs)
next
  show "parseOldEntry False (e\<lparr>item_cells := cells\<rparr>) = parseOldEntry False e"
    by (simp add: parseOldEntry_def old_image_def split: sum.split prod.split)
next
  show "parseNewEntry False (e'\<lparr>item_meta := meta\<rparr>) = parseNewEntry False e'"
    by (simp add: parseNewEntry_def split: sum.split prod.split)
qed

theorem is_new_rule_witness:
  "parseOldEntry True sample_item = Inr sample_entry \<and>
   sample_entry ''weeks'' = Some (VInt 3) \<and> sample_entry ''isNew'' = Some (VBool False) \<and>
   parseNewEntry True sample_new_item = Inr sample_new_entry \<and>
   sample_new_entry ''weeks'' = Some (VInt 1) \<and> sample_new_entry ''isNew'' = Some (VBool True) \<and>
   parseOldEntry False sample_item = Inr sample_entry_undated \<and>
   sample_entry_undated ''weeks'' = Some VNone \<and>
   sample_entry_undated ''isNew'' = Some (VBool False) \<and>
   parseNewEntry False sample_new_item = Inr sample_new_entry_undated \<and>
   sample_new_entry_undated ''weeks'' = Some VNone \<and>
   sample_new_entry_undated ''isNew'' = Some (VBool False)"
proof -
  have weeks: "sample_entry ''weeks'' = Some (VInt 3)" "sample_new_entry ''weeks'' = Some (VInt 1)"
    by (simp_all add: sample_entry_def sample_new_entry_def ChartEntry_init_attrs)
  show ?thesis
    using is_new_rule [of sample_item sample_entry sample_new_item sample_new_entry
        sample_entry_undated sample_new_entry_undated]
      sample_old_dated sample_new_dated sample_old_undated sample_new_undated
    by (simp add: weeks)
qed

section \<open>Ministats\<close>

lemma py_strip_idem: "py_strip (py_strip s) = py_strip s"
  by (simp add: py_strip_def strip_chars_idem)

lemma ministats_scan_value:
  "ministats_scan cells f d = Some v \<Longrightarrow>
   ministat_value d (map_option cell_reads (find (heading_is f) cells)) = Some v"
proof (induction cells)
  case Nil
  then show ?case by (simp add: ministat_value_def)
next
  case (Cons c cells)
  show ?case
  proof (cases "cell_heading c")
    case None
    with Cons.prems show ?thesis by simp
  next
    case (Some h)
    show ?thesis
    proof (cases "py_lower (py_strip h) = f")
      case True
      with Some Cons.prems show ?thesis
        by (simp add: heading_is_def cell_reads_def ministat_value_def Let_def py_strip_idem
              split: if_splits)
    next
      case False
      with Some Cons show ?thesis by (simp add: heading_is_def)
    qed
  qed
qed

lemma getMinistatsCellValue_value:
  "getMinistatsCellValue (item_cells e) f d = Inr v \<Longrightarrow> ministat_value d (old_cell e f) = Some v"
  by (simp add: getMinistatsCellValue_def or_fail_Inr old_cell_def ministats_scan_value)

lemma getMeta_value: "getMeta e a d = Inr v \<Longrightarrow> ministat_value d (new_cell e a) = Some v"
  by (auto simp: getMeta_def new_cell_def ministat_value_def or_fail_Inr
           split: option.splits if_splits)

text \<open>
  C6.  In an entry of a dated snapshot the peak is \<open>None\<close>, the last position 0 and the
  weeks 1 when the cell of the field is missing or reads \<open>-\<close>; a cell that holds a value
  gives that value as an integer.
\<close>

theorem ministats_defaults:
  "(parseOldEntry True e = Inr entry \<longrightarrow>
      entry ''peakPos'' = ministat_value VNone (old_cell e ''peak'') \<and>
      entry ''lastPos'' = ministat_value (VInt 0) (old_cell e ''last'') \<and>
      entry ''weeks'' = ministat_value (VInt 1) (old_cell e ''weeks'')) \<and>
   (parseNewEntry True e' = Inr entry' \<longrightarrow>
      entry' ''peakPos'' = ministat_value VNone (new_cell e' ''peak'') \<and>
      entry' ''lastPos'' = ministat_value (VInt 0) (new_cell e' ''last'') \<and>
      entry' ''weeks'' = ministat_value (VInt 1) (new_cell e' ''week'')) \<and>
   ministat_value dflt None = Some dflt \<and>
   ministat_value dflt (Some ''-'') = Some dflt \<and>
   (t \<noteq> ''-'' \<longrightarrow> ministat_value dflt (Some t) = map_option VInt (py_int (py_strip t)))"
proof (intro conjI impI)
  assume "parseOldEntry True e = Inr entry"
  from parseOldEntry_Inr [OF this] obtain ti a img r p l w where
    p: "getMinistatsCellValue (item_cells e) ''peak'' VNone = Inr p" and
    l: "getMinistatsCellValue (item_cells e) ''last'' (VInt 0) = Inr l" and
    w: "getMinistatsCellValue (item_cells e) ''weeks'' (VInt 1) = Inr w" and
    entry: "entry = ChartEntry_init ti a img p l w r (VBool (w = VInt 1))"
    by auto
  show "entry ''peakPos'' = ministat_value VNone (old_cell e ''peak'')"
    "entry ''lastPos'' = ministat_value (VInt 0) (old_cell e ''last'')"
    "entry ''weeks'' = ministat_value (VInt 1) (old_cell e ''weeks'')"
    by (simp_all add: entry ChartEntry_init_attrs getMinistatsCellValue_value [OF p]
          getMinistatsCellValue_value [OF l] getMinistatsCellValue_value [OF w])
next
  assume "parseNewEntry True e' = Inr entry'"
  from parseNewEntry_Inr [OF this] obtain ti a r p l w where
    p: "getMeta e' ''peak'' VNone = Inr p" and
    l: "getMeta e' ''last'' (VInt 0) = Inr l" and
    w: "getMeta e' ''week'' (VInt 1) = Inr w" and
    entry: "entry' = ChartEntry_init ti a VNone p l w r (VBool (w = VInt 1))"
    by auto
  show "entry' ''peakPos'' = ministat_value VNone (new_cell e' ''peak'')"
    "entry' ''lastPos'' = ministat_value (VInt 0) (new_cell e' ''last'')"
    "entry' ''weeks'' = ministat_value (VInt 1) (new_cell e' ''week'')"
    by (simp_all add: entry ChartEntry_init_attrs getMeta_value [OF p]
          getMeta_value [OF l] getMeta_value [OF w])
qed (simp_all add: ministat_value_def)

theorem ministats_defaults_witness:
  "parseOldEntry True sample_item = Inr sample_entry \<and>
   old_cell sample_item ''peak'' = Some ''-'' \<and> sample_entry ''peakPos'' = Some VNone \<and>
   old_cell sample_item ''last'' = None \<and> sample_entry ''lastPos'' = Some (VInt 0) \<and>
   old_cell sample_item ''weeks'' = Some ''3'' \<and> sample_entry ''weeks'' = Some (VInt 3) \<and>
   parseNewEntry True sample_new_item = Inr sample_new_entry \<and>
   new_cell sample_new_item ''peak'' = Some ''-'' \<and> sample_new_entry ''peakPos'' = Some VNone \<and>
   new_cell sample_new_item ''last'' = None \<and> sample_new_entry ''lastPos'' = Some (VInt 0) \<and>
   new_cell sample_new_item ''week'' = Some ''1'' \<and> sample_new_entry ''weeks'' = Some (VInt 1) \<and>
   ''3'' \<noteq> ''-'' \<and> ministat_value (VInt 1) (Some ''3'') = Some (VInt 3)"
proof -
  have cells: "old_cell sample_item ''peak'' = Some ''-''" "old_cell sample_item ''last'' = None"
    "old_cell sample_item ''weeks'' = Some ''3''"
    "new_cell sample_new_item ''peak'' = Some ''-''" "new_cell sample_new_item ''last'' = None"
    "new_cell sample_new_item ''week'' = Some ''1''"
    by code_simp+
  have ints: "py_int (py_strip ''3'') = Some 3" "py_int (py_strip ''1'') = Some 1"
    by code_simp+
  have 1: "ministat_value (VInt 1) (Some ''1'') = Some (VInt 1)"
    by (simp add: ministat_value_def ints)
  show ?thesis
    using ministats_defaults [where e = sample_item and entry = sample_entry
          and e' = sample_new_item and entry' = sample_new_entry and t = "''3''" and dflt = "VInt 1"]
      sample_old_dated sample_new_dated
    by (simp add: cells ints 1 ministat_value_def)
qed

section \<open>Pages\<close>


lemma parse_page_date_title:
  "parse_page_date b (parse_title soup s) =
     (case parse_page_date b s of Inl err \<Rightarrow> Inl err | Inr s1 \<Rightarrow> Inr (parse_title soup s1))"
  by (simp add: parse_page_date_def parse_title_def split: option.splits)

lemma parse_title_fields:
  "self_date (parse_title soup s) = self_date s"
  "self_entries (parse_title soup s) = self_entries s"
  "self_previousDate (parse_title soup s) = self_previousDate s"
  "self_nextDate (parse_title soup s) = self_nextDate s"
  "has_date (parse_title soup s) = has_date s"
  by (simp_all add: parse_title_def has_date_def split: option.splits)

lemma parseOldStylePage_date:
  "self_date (snd (parseOldStylePage soup s)) =
     (case parse_page_date (date_button soup) s of Inl err \<Rightarrow> self_date s | Inr s1 \<Rightarrow> self_date s1)"
  by (simp add: parseOldStylePage_def Let_def case_prod_beta split: sum.splits option.splits)

lemma parseNewStylePage_date:
  "self_date (snd (parseNewStylePage soup s)) =
     (case parse_page_date (date_button_new soup) s of Inl err \<Rightarrow> self_date s | Inr s1 \<Rightarrow> self_date s1)"
  by (simp add: parseNewStylePage_def Let_def case_prod_beta split: sum.splits option.splits)

lemma parsePage_date:
  "self_date (snd (parsePage soup s)) =
     (case parse_page_date (layout_date_button soup) s of
        Inl err \<Rightarrow> self_date s
      | Inr s1 \<Rightarrow> self_date s1)"
  by (simp add: parsePage_def Let_def parseOldStylePage_date parseNewStylePage_date
        layout_date_button_def classify_def parse_page_date_title parse_title_fields
      split: sum.splits)

text \<open>
  C7.  A page is parsed by the old-style parser when it has a table element and by the
  new-style parser otherwise, and by nothing else: the elements that only the other
  layout reads have no effect.
\<close>

theorem layout_dispatch:
  "parsePage soup s =
     (case classify soup of
        OldStyle \<Rightarrow> parseOldStylePage soup (parse_title soup s)
      | NewStyle \<Rightarrow> parseNewStylePage soup (parse_title soup s)) \<and>
   (classify soup = OldStyle \<longleftrightarrow> 0 < tables soup) \<and>
   (classify soup = NewStyle \<longleftrightarrow> tables soup = 0) \<and>
   (0 < tables soup \<longrightarrow>
      parsePage (soup\<lparr>date_button_new := b, chart_list_elements := xs\<rparr>) s = parsePage soup s) \<and>
   (tables soup = 0 \<longrightarrow>
      parsePage (soup\<lparr>date_button := b', prev_href := p, next_href := n, chart_list_items := ys\<rparr>) s
        = parsePage soup s)"
proof (intro conjI impI)
  show "parsePage soup s =
     (case classify soup of
        OldStyle \<Rightarrow> parseOldStylePage soup (parse_title soup s)
      | NewStyle \<Rightarrow> parseNewStylePage soup (parse_title soup s))"
    by (simp add: parsePage_def classify_def Let_def)
  show "classify soup = OldStyle \<longleftrightarrow> 0 < tables soup" "classify soup = NewStyle \<longleftrightarrow> tables soup = 0"
    by (simp_all add: classify_def)
next
  assume "0 < tables soup"
  moreover have "parseOldStylePage (soup\<lparr>date_button_new := b, chart_list_elements := xs\<rparr>) s'
      = parseOldStylePage soup s'" for s'
    by (simp add: parseOldStylePage_def Let_def split: sum.split)
  moreover have "parse_title (soup\<lparr>date_button_new := b, chart_list_elements := xs\<rparr>) s
      = parse_title soup s"
    by (simp add: parse_title_def)
  ultimately show "parsePage (soup\<lparr>date_button_new := b, chart_list_elements := xs\<rparr>) s
      = parsePage soup s"
    by (simp add: parsePage_def)
next
  assume "tables soup = 0"
  moreover have "parseNewStylePage
      (soup\<lparr>date_button := b', prev_href := p, next_href := n, chart_list_items := ys\<rparr>) s'
      = parseNewStylePage soup s'" for s'
    by (simp add: parseNewStylePage_def Let_def split: sum.split)
  moreover have "parse_title
      (soup\<lparr>date_button := b', prev_href := p, next_href := n, chart_list_items := ys\<rparr>) s
      = parse_title soup s"
    by (simp add: parse_title_def)
  ultimately show "parsePage
      (soup\<lparr>date_button := b', prev_href := p, next_href := n, chart_list_items := ys\<rparr>) s
      = parsePage soup s"
    by (simp add: parsePage_def)
qed

theorem layout_dispatch_witness:
  "0 < tables sample_page \<and> classify sample_page = OldStyle \<and>
   parsePage (sample_page\<lparr>date_button_new := Some ''x'', chart_list_elements := [sample_new_item]\<rparr>)
     sample_chart = parsePage sample_page sample_chart \<and>
   tables sample_ye_page = 0 \<and> classify sample_ye_page = NewStyle \<and>
   parsePage (sample_ye_page\<lparr>date_button := Some ''x'', prev_href := Some ''/a'',
       next_href := Some ''/b'', chart_list_items := [sample_item]\<rparr>) sample_chart
     = parsePage sample_ye_page sample_chart"
proof -
  have tables: "tables sample_page = 1" "tables sample_ye_page = 0"
    by (simp_all add: sample_page_def sample_ye_page_def)
  show ?thesis
    using layout_dispatch [where soup = sample_page and s = sample_chart and b = "Some ''x''"
          and xs = "[sample_new_item]"]
      layout_dispatch [where soup = sample_ye_page and s = sample_chart and b' = "Some ''x''"
          and p = "Some ''/a''" and n = "Some ''/b''" and ys = "[sample_item]"]
    by (simp add: tables)
qed

section \<open>Failing entries\<close>


lemma parse_loop_ok:
  "map f xs = map Inr oks \<Longrightarrow> parse_loop f xs es = (None, es @ oks)"
proof (induction oks arbitrary: xs es)
  case Nil
  then show ?case by simp
next
  case (Cons ok oks)
  then obtain x xs' where xs: "xs = x # xs'" "f x = Inr ok" "map f xs' = map Inr oks"
    by (cases xs) auto
  from Cons.IH [OF xs(3)] xs(1,2) show ?case by simp
qed







lemma sample_status: "check_status (sample_http page url) = Inr page"
  by (simp add: check_status_def sample_http_def)


section \<open>The date of a weekly chart\<close>

text \<open>
  C2.  The check of lines 138--144 lets a string through that starts with a date and
  goes on with further fields that \<open>datetime.datetime\<close> takes as a time of day: no
  \<open>ValueError\<close> is raised for it, and it becomes the date of the snapshot as it is.
\<close>

theorem check_date_accepts_trailing_field:
  "length ''2020-01-01-10'' = 13 \<and>
   check_date (Some ''2020-01-01-10'') = Inr () \<and>
   ChartData_init (sample_http sample_page) ''hot-100'' (Some ''2020-01-01-10'') False
     = Inr \<lparr>self_name = ''hot-100'', self_date = Some ''2020-01-01-10'', self_title = Some [],
            self_previousDate = None, self_nextDate = None, self_entries = []\<rparr>"
proof -
  have "check_date (Some ''2020-01-01-10'') = Inr ()"
    by code_simp
  then show ?thesis
    by (simp add: ChartData_init_def)
qed

lemma check_date_before_fetch:
  "check_date dt = Inl err \<Longrightarrow> ChartData_init http nm dt fetch = Inl err"
  by (simp add: ChartData_init_def)

section \<open>Formatted numbers\<close>

lemma zero_pad_all: "list_all is_digit (zero_pad k n)"
proof -
  have "is_digit CHR ''0''" by (simp add: is_digit_def)
  then show ?thesis
    using digits_of_all [of n] by (auto simp: zero_pad_def list_all_iff)
qed

lemma zero_pad_nonempty: "zero_pad k n \<noteq> []"
  by (simp add: zero_pad_def digits_of_nonempty)

lemma tok_val_zeros: "foldl (\<lambda>a c. a * 10 + digit_val c) 0 (replicate j CHR ''0'') = 0"
  by (induction j) (simp_all add: digit_val_def)

lemma tok_val_zero_pad: "tok_val (zero_pad k n) = int n"
  using tok_val_digits_of [of n] by (simp add: zero_pad_def tok_val_def tok_val_zeros)

lemma length_digits_of: "0 < k \<Longrightarrow> (length (digits_of n) \<le> k) = (n < 10 ^ k)"
proof (induction n arbitrary: k rule: digits_of.induct)
  case (1 n)
  show ?case
  proof (cases "n < 10")
    case True
    have "(10::nat) \<le> 10 ^ k" using 1(2) by (cases k) simp_all
    with True 1(2) show ?thesis by (subst digits_of.simps) simp
  next
    case False
    show ?thesis
    proof (cases k)
      case 0
      with 1(2) show ?thesis by simp
    next
      case (Suc k')
      show ?thesis
      proof (cases "k' = 0")
        case True
        with Suc False digits_of_nonempty [of "n div 10"] show ?thesis
          by (subst digits_of.simps) (simp add: Suc_le_eq)
      next
        case k': False
        then have "(length (digits_of (n div 10)) \<le> k') = (n div 10 < 10 ^ k')"
          using 1(1) [OF False] by simp
        moreover have "(n div 10 < 10 ^ k') = (n < 10 ^ Suc k')"
          by (simp add: div_less_iff_less_mult mult.commute)
        ultimately show ?thesis using False Suc
          by (subst digits_of.simps) simp
      qed
    qed
  qed
qed

lemma length_zero_pad: "n < 10 ^ k \<Longrightarrow> 0 < k \<Longrightarrow> length (zero_pad k n) = k"
  using length_digits_of [of k n] by (simp add: zero_pad_def)

lemma int_isspace_dash: "\<not> int_isspace CHR ''-''"
  by (simp add: int_isspace_def)

lemma py_int_digits_dash:
  assumes "list_all is_digit a" "a \<noteq> []" "rest \<noteq> []" "\<not> int_isspace (last rest)"
  shows "py_int (a @ CHR ''-'' # rest) = None"
proof -
  obtain c cs where a: "a = c # cs" using assms(2) by (cases a) auto
  with assms(1) have c: "is_digit c" by simp
  let ?s = "a @ CHR ''-'' # rest"
  have "strip_chars int_isspace ?s = ?s"
    using assms c a by (intro strip_chars_id) (auto dest: is_digit_not_space)
  moreover have "parse_unsigned ?s = None"
  proof -
    have "\<not> is_digit CHR ''-''" by (simp add: is_digit_def)
    then have "parse_digits 0 ?s = None"
      using assms(1) by (intro parse_digits_stop) auto
    then show ?thesis using a c by (simp add: parse_unsigned_def)
  qed
  moreover have "c \<noteq> CHR ''-''" "c \<noteq> CHR ''+''" using c is_digit_not_sign by auto
  ultimately show ?thesis by (simp add: py_int_def a)
qed

lemma py_int_strftime_Ymd: "py_int (strftime_Ymd dt) = None"
proof -
  obtain y m d where dt: "dt = (y, m, d)" by (cases dt) auto
  let ?rest = "zero_pad 2 (nat m) @ ''-'' @ zero_pad 2 (nat d)"
  have "last ?rest = last (zero_pad 2 (nat d))"
    using zero_pad_nonempty by simp
  moreover have "is_digit (last (zero_pad 2 (nat d)))"
    using zero_pad_all [of 2 "nat d"] zero_pad_nonempty [of 2 "nat d"]
    by (auto simp: list_all_iff)
  ultimately have "\<not> int_isspace (last ?rest)" by (auto dest: is_digit_not_space)
  moreover have "?rest \<noteq> []" by simp
  ultimately have "py_int (digits_of (nat y) @ CHR ''-'' # ?rest) = None"
    using digits_of_all digits_of_nonempty by (intro py_int_digits_dash)
  then show ?thesis by (simp add: dt strftime_Ymd_def)
qed

lemma py_int_py_str_int: "py_int (py_str_int n) = Some n"
proof (cases "n < 0")
  case False
  then show ?thesis
    using py_int_digits [OF digits_of_all digits_of_nonempty, of "nat n"]
    by (simp add: py_str_int_def tok_val_digits_of)
next
  case True
  let ?ds = "digits_of (nat (- n))"
  let ?s = "CHR ''-'' # ?ds"
  have "is_digit (last ?ds)"
    using digits_of_all [of "nat (- n)"] digits_of_nonempty [of "nat (- n)"]
    by (auto simp: list_all_iff)
  then have "\<not> int_isspace (last ?s)"
    using digits_of_nonempty by (auto dest: is_digit_not_space)
  then have "strip_chars int_isspace ?s = ?s"
    by (intro strip_chars_id) (simp_all add: int_isspace_dash)
  then have "py_int ?s = map_option uminus (parse_unsigned ?ds)"
    by (simp add: py_int_def)
  also have "\<dots> = Some (- int (nat (- n)))"
    by (simp add: parse_unsigned_digits digits_of_all digits_of_nonempty tok_val_digits_of)
  finally show ?thesis using True by (simp add: py_str_int_def)
qed

section \<open>Neighbouring years\<close>

lemma int_of_date_strftime: "int_of_date (Some (strftime_Ymd dt)) \<noteq> Inr y"
  by (simp add: int_of_date_def int_of_def py_int_strftime_Ymd)

lemma parse_page_date_date:
  "parse_page_date b s = Inr s1 \<Longrightarrow>
   self_date s1 = self_date s \<or> (\<exists>dt. self_date s1 = Some (strftime_Ymd dt))"
proof (cases b)
  case None
  then show "parse_page_date b s = Inr s1 \<Longrightarrow> ?thesis" by (simp add: parse_page_date_def)
next
  case (Some t)
  assume a: "parse_page_date b s = Inr s1"
  show ?thesis
  proof (cases "strptime_BdY (py_strip t)")
    case None
    with Some a show ?thesis by (simp add: parse_page_date_def)
  next
    case (Some dt)
    with \<open>b = Some t\<close> a have "self_date s1 = Some (strftime_Ymd dt)"
      by (auto simp: parse_page_date_def)
    then show ?thesis by blast
  qed
qed

lemma parse_page_date_others:
  "parse_page_date b s = Inr s1 \<Longrightarrow>
   self_previousDate s1 = self_previousDate s \<and> self_nextDate s1 = self_nextDate s \<and>
   self_entries s1 = self_entries s \<and> self_name s1 = self_name s"
  by (auto simp: parse_page_date_def split: option.splits)

lemma parsePage_date_cases:
  "self_date (snd (parsePage soup s)) = self_date s \<or>
   (\<exists>dt. self_date (snd (parsePage soup s)) = Some (strftime_Ymd dt))"
  using parse_page_date_date [of "layout_date_button soup" s]
  by (auto simp: parsePage_date split: sum.splits)

lemma parseOldStylePage_nextDate:
  "fst (parseOldStylePage soup s) = None \<Longrightarrow>
   self_nextDate (snd (parseOldStylePage soup s)) =
     (case link_date (next_href soup) of None \<Rightarrow> self_nextDate s | Some d \<Rightarrow> Some d)"
  by (auto simp: parseOldStylePage_def Let_def case_prod_beta
           dest: parse_page_date_others split: sum.splits option.splits)

lemma parseNewStylePage_nextDate:
  "fst (parseNewStylePage soup s) = None \<Longrightarrow>
   self_nextDate (snd (parseNewStylePage soup s)) = self_nextDate s"
  by (auto simp: parseNewStylePage_def Let_def case_prod_beta
           dest: parse_page_date_others split: sum.splits option.splits)

lemma parsePage_nextDate:
  "fst (parsePage soup s) = None \<Longrightarrow>
   self_nextDate (snd (parsePage soup s)) =
     (case classify soup of
        OldStyle \<Rightarrow> (case link_date (next_href soup) of None \<Rightarrow> self_nextDate s | Some d \<Rightarrow> Some d)
      | NewStyle \<Rightarrow> self_nextDate s)"
  by (cases "0 < tables soup")
    (simp_all add: parsePage_def Let_def classify_def parseOldStylePage_nextDate
        parseNewStylePage_nextDate parse_title_fields split: option.split)

lemma adjacent_years_fields:
  "self_previousDate (adjacent_years cy y s) =
     (if y \<noteq> 0 then Some (py_str_int (y - 1)) else self_previousDate s)"
  "self_nextDate (adjacent_years cy y s) =
     (if y \<noteq> 0 \<and> y \<noteq> cy then Some (py_str_int (y + 1)) else self_nextDate s)"
  "self_date (adjacent_years cy y s) = self_date s"
  by (simp_all add: adjacent_years_def Let_def)

lemma YearEnd_fetchEntries_ok:
  assumes "YearEnd_fetchEntries http now_year s = (None, s')"
    and "check_status (http (year_end_url s)) = Inr soup"
  shows "fst (parsePage soup s) = None \<and>
         (\<exists>s2 y. parse_page_date (date_button soup) (snd (parsePage soup s)) = Inr s2 \<and>
           int_of_date (self_date s2) = Inr y \<and>
           self_previousDate s' = self_previousDate (adjacent_years (now_year - 1) y s2) \<and>
           self_nextDate s' = self_nextDate (adjacent_years (now_year - 1) y s2))"
  using assms
  by (auto simp: YearEnd_fetchEntries_def Let_def case_prod_beta
           split: sum.splits option.splits prod.splits)

text \<open>
  C8, as stated, fails for the year 0: a chart that is in none of the lists of first
  years is resolved to the year 0 for the date \<open>0000\<close>, and after the fetch
  \<open>previousDate\<close> is still \<open>None\<close>.
\<close>

theorem year_zero_has_no_previous:
  "(case YearEnd_init sample_charts (sample_http sample_ye_page) 2026 ''adult-pop-songs''
           (DStr ''0000'') True of
      Inl err \<Rightarrow> False
    | Inr s \<Rightarrow> int_of_date (self_date s) = Inr 0 \<and> self_previousDate s = None \<and>
               self_nextDate s = None)"
  by code_simp

text \<open>
  C8, amended.  After a fetch of a year-end chart that returns, for the year \<open>y\<close> of the
  snapshot other than 0, \<open>previousDate\<close> is the string of \<open>y - 1\<close>, whatever the first
  year of the chart is.  \<open>nextDate\<close> is the string of \<open>y + 1\<close> unless \<open>y\<close> is the year
  before the current one; then the fetch leaves \<open>nextDate\<close> as the parser of the page
  left it, which is unset unless an old-style page has a link to the next chart.
\<close>

theorem year_end_neighbours:
  "YearEnd_fetchEntries http now_year s = (None, s') \<and>
   check_status (http (year_end_url s)) = Inr soup \<and>
   int_of_date (self_date s) = Inr y \<and> y \<noteq> 0 \<longrightarrow>
     self_previousDate s' = Some (py_str_int (y - 1)) \<and>
     (y \<noteq> now_year - 1 \<longrightarrow> self_nextDate s' = Some (py_str_int (y + 1))) \<and>
     (y = now_year - 1 \<longrightarrow>
        self_nextDate s' =
          (case classify soup of
             OldStyle \<Rightarrow> (case link_date (next_href soup) of
                            None \<Rightarrow> self_nextDate s
                          | Some d \<Rightarrow> Some d)
           | NewStyle \<Rightarrow> self_nextDate s))"
proof (intro impI)
  assume a: "YearEnd_fetchEntries http now_year s = (None, s') \<and>
   check_status (http (year_end_url s)) = Inr soup \<and>
   int_of_date (self_date s) = Inr y \<and> y \<noteq> 0"
  then obtain s2 y' where ok: "fst (parsePage soup s) = None"
    and s2: "parse_page_date (date_button soup) (snd (parsePage soup s)) = Inr s2"
    and y': "int_of_date (self_date s2) = Inr y'"
    and prev: "self_previousDate s' = self_previousDate (adjacent_years (now_year - 1) y' s2)"
    and nxt: "self_nextDate s' = self_nextDate (adjacent_years (now_year - 1) y' s2)"
    using YearEnd_fetchEntries_ok [of http now_year s s' soup] by blast
  have "self_date s2 = self_date s"
    using parse_page_date_date [OF s2] parsePage_date_cases [of soup s] y' int_of_date_strftime
    by metis
  with y' a have y: "y' = y" by simp
  have "self_nextDate s2 = self_nextDate (snd (parsePage soup s))"
    using parse_page_date_others [OF s2] by simp
  with parsePage_nextDate [OF ok] nxt prev a show
    "self_previousDate s' = Some (py_str_int (y - 1)) \<and>
     (y \<noteq> now_year - 1 \<longrightarrow> self_nextDate s' = Some (py_str_int (y + 1))) \<and>
     (y = now_year - 1 \<longrightarrow>
        self_nextDate s' =
          (case classify soup of
             OldStyle \<Rightarrow> (case link_date (next_href soup) of
                            None \<Rightarrow> self_nextDate s
                          | Some d \<Rightarrow> Some d)
           | NewStyle \<Rightarrow> self_nextDate s))"
    by (simp add: y adjacent_years_fields)
qed

theorem year_end_neighbours_witness:
  "(YearEnd_fetchEntries (sample_http sample_ye_page) 2026 (sample_year_end ''2019'')
      = (None, snd (YearEnd_fetchEntries (sample_http sample_ye_page) 2026 (sample_year_end ''2019''))) \<and>
    check_status (sample_http sample_ye_page (year_end_url (sample_year_end ''2019'')))
      = Inr sample_ye_page \<and>
    int_of_date (self_date (sample_year_end ''2019'')) = Inr 2019 \<and> (2019::int) \<noteq> 0) \<and>
   self_previousDate (snd (YearEnd_fetchEntries (sample_http sample_ye_page) 2026
       (sample_year_end ''2019''))) = Some ''2018'' \<and>
   self_nextDate (snd (YearEnd_fetchEntries (sample_http sample_ye_page) 2026
       (sample_year_end ''2019''))) = Some ''2020'' \<and>
   (YearEnd_fetchEntries (sample_http sample_ye_page) 2026 (sample_year_end ''2025'')
      = (None, snd (YearEnd_fetchEntries (sample_http sample_ye_page) 2026 (sample_year_end ''2025''))) \<and>
    int_of_date (self_date (sample_year_end ''2025'')) = Inr 2025 \<and> (2025::int) = 2026 - 1) \<and>
   self_previousDate (snd (YearEnd_fetchEntries (sample_http sample_ye_page) 2026
       (sample_year_end ''2025''))) = Some ''2024'' \<and>
   self_nextDate (snd (YearEnd_fetchEntries (sample_http sample_ye_page) 2026
       (sample_year_end ''2025''))) = None"
proof -
  have ok: "fst (YearEnd_fetchEntries (sample_http sample_ye_page) 2026 (sample_year_end ''2019'')) = None"
    "fst (YearEnd_fetchEntries (sample_http sample_ye_page) 2026 (sample_year_end ''2025'')) = None"
    by code_simp+
  have ret: "YearEnd_fetchEntries (sample_http sample_ye_page) 2026 (sample_year_end d)
      = (None, snd (YearEnd_fetchEntries (sample_http sample_ye_page) 2026 (sample_year_end d)))"
    if "fst (YearEnd_fetchEntries (sample_http sample_ye_page) 2026 (sample_year_end d)) = None" for d
    using that by (simp add: prod_eq_iff)
  have years: "int_of_date (self_date (sample_year_end ''2019'')) = Inr 2019"
    "int_of_date (self_date (sample_year_end ''2025'')) = Inr 2025"
    by code_simp+
  have strs: "py_str_int 2018 = ''2018''" "py_str_int 2020 = ''2020''" "py_str_int 2024 = ''2024''"
    by code_simp+
  have page: "classify sample_ye_page = NewStyle" "self_nextDate (sample_year_end ''2025'') = None"
    by (simp_all add: classify_def sample_ye_page_def sample_year_end_def)
  show ?thesis
    using year_end_neighbours [of "sample_http sample_ye_page" 2026 "sample_year_end ''2019''"
        "snd (YearEnd_fetchEntries (sample_http sample_ye_page) 2026 (sample_year_end ''2019''))"
        sample_ye_page 2019]
      year_end_neighbours [of "sample_http sample_ye_page" 2026 "sample_year_end ''2025''"
        "snd (YearEnd_fetchEntries (sample_http sample_ye_page) 2026 (sample_year_end ''2025''))"
        sample_ye_page 2025]
      ret [OF ok(1)] ret [OF ok(2)]
    by (simp add: sample_status years strs page)
qed

section \<open>Splitting and dates written with dashes\<close>

lemma split_on_none: "sep \<notin> set s \<Longrightarrow> split_on sep s = [s]"
  by (induction s) auto

lemma split_on_sep: "sep \<notin> set xs \<Longrightarrow> split_on sep (xs @ sep # ys) = xs # split_on sep ys"
  by (induction xs) auto

lemma split_on_nonempty: "split_on sep s \<noteq> []"
  by (induction s) (auto split: list.splits)

lemma split_on_some: "sep \<in> set s \<Longrightarrow> \<exists>x y zs. split_on sep s = x # y # zs"
proof (induction s)
  case Nil
  then show ?case by simp
next
  case (Cons c s)
  show ?case
  proof (cases "c = sep")
    case True
    then show ?thesis using split_on_nonempty [of sep s] by (cases "split_on sep s") auto
  next
    case False
    with Cons obtain x y zs where "split_on sep s = x # y # zs" by auto
    with False show ?thesis by simp
  qed
qed

lemma digits_no_dash: "list_all is_digit xs \<Longrightarrow> CHR ''-'' \<notin> set xs"
  using is_digit_not_sign by (auto simp: list_all_iff)

lemma date_parts:
  assumes "10 \<le> length s"
  shows "s = take 4 s @ s ! 4 # take 2 (drop 5 s) @ s ! 7 # drop 8 s"
proof -
  have 1: "s = take 4 s @ s ! 4 # drop 5 s"
    using assms id_take_nth_drop [of 4 s] by simp
  have 2: "drop 5 s = take 2 (drop 5 s) @ drop 5 s ! 2 # drop 3 (drop 5 s)"
    using assms id_take_nth_drop [of 2 "drop 5 s"] by simp
  have 3: "drop 5 s ! 2 = s ! 7" "drop 3 (drop 5 s) = drop 8 s"
    using assms by simp_all
  from 1 2 3 show ?thesis by metis
qed

lemma days_in_month_le: "days_in_month y m \<le> 31"
  by (simp add: days_in_month_def)

lemma strptime_Ymd_iso:
  assumes "re_match_date s"
  shows "strptime_Ymd s =
           (if is_iso_date s
            then Some (tok_val (take 4 s), tok_val (take 2 (drop 5 s)), tok_val (drop 8 s))
            else None)"
proof -
  let ?a = "take 4 s" and ?b = "take 2 (drop 5 s)" and ?c = "drop 8 s"
  from assms have len: "10 \<le> length s" and a: "list_all is_digit ?a" and b: "list_all is_digit ?b"
    and c2: "list_all is_digit (take 2 ?c)" and d4: "s ! 4 = CHR ''-''" and d7: "s ! 7 = CHR ''-''"
    by (simp_all add: re_match_date_def)
  have s: "s = ?a @ CHR ''-'' # ?b @ CHR ''-'' # ?c"
    using date_parts [OF len] d4 d7 by simp
  have la: "length ?a = 4" and lb: "length ?b = 2" and lc: "2 \<le> length ?c"
    using len by simp_all
  have split: "split_on CHR ''-'' s = ?a # ?b # split_on CHR ''-'' ?c"
    by (subst s, simp only: split_on_sep [OF digits_no_dash [OF a]],
        simp only: split_on_sep [OF digits_no_dash [OF b]])
  obtain c0 c1 cs where c: "?c = c0 # c1 # cs"
    using lc by (cases ?c; cases "tl ?c") auto
  with c2 have c0: "is_digit c0" and c1: "is_digit c1" by simp_all
  have c0sp: "c0 \<noteq> CHR '' ''" using c0 is_digit_not_sign by auto
  show ?thesis
  proof (cases "CHR ''-'' \<in> set ?c")
    case True
    then have "length ?c \<noteq> 2" using c c0 c1 is_digit_not_sign by auto
    then have "\<not> is_iso_date s" using len by (auto simp: is_iso_date_def)
    moreover from split_on_some [OF True] obtain x y zs where
      "split_on CHR ''-'' ?c = x # y # zs" by blast
    ultimately show ?thesis by (simp add: strptime_Ymd_def split)
  next
    case False
    then have sp: "split_on CHR ''-'' s = [?a, ?b, ?c]"
      by (simp add: split split_on_none)
    show ?thesis
    proof (cases "length ?c = 2")
      case False
      then have "\<not> is_iso_date s" using len by (auto simp: is_iso_date_def)
      moreover have "\<not> day_tok ?c"
        using False lc c c0sp by (auto simp: day_tok_def num_tok_def split: list.splits)
      ultimately show ?thesis by (simp add: strptime_Ymd_def sp)
    next
      case True
      then have cs: "cs = []" using c by simp
      have call: "list_all is_digit ?c" using c cs c0 c1 by simp
      have iso: "is_iso_date s = valid_date (tok_val ?a) (tok_val ?b) (tok_val ?c)"
        using True len assms by (auto simp: is_iso_date_def)
      have drop: "dropWhile (\<lambda>c. c = CHR '' '') ?c = ?c"
        using c c0sp by simp
      have day: "day_tok ?c = (1 \<le> tok_val ?c \<and> tok_val ?c \<le> 31)"
        using c cs c0sp call True by (auto simp: day_tok_def num_tok_def)
      have month: "num_tok 12 ?b = (1 \<le> tok_val ?b \<and> tok_val ?b \<le> 12)"
        using b lb by (auto simp: num_tok_def)
      have "valid_date (tok_val ?a) (tok_val ?b) (tok_val ?c) \<Longrightarrow>
              num_tok 12 ?b \<and> day_tok ?c"
        using days_in_month_le [of "tok_val ?a" "tok_val ?b"]
        by (auto simp: valid_date_def day month)
      then show ?thesis
        using a la by (auto simp: strptime_Ymd_def sp iso drop Let_def)
    qed
  qed
qed

section \<open>The date argument of a year-end chart\<close>

lemma iso_parts:
  assumes "length a = 4" "length b = 2" "length c = 2"
  shows "length (a @ ''-'' @ b @ ''-'' @ c) = 10"
    and "take 4 (a @ ''-'' @ b @ ''-'' @ c) = a"
    and "(a @ ''-'' @ b @ ''-'' @ c) ! 4 = CHR ''-''"
    and "take 2 (drop 5 (a @ ''-'' @ b @ ''-'' @ c)) = b"
    and "(a @ ''-'' @ b @ ''-'' @ c) ! 7 = CHR ''-''"
    and "drop 8 (a @ ''-'' @ b @ ''-'' @ c) = c"
  using assms by (simp_all add: nth_append)

lemma isoformat_valid:
  assumes "valid_date y m d"
  shows "length (isoformat (y, m, d)) = 10"
    and "re_match_date (isoformat (y, m, d))"
    and "is_iso_date (isoformat (y, m, d))"
    and "tok_val (take 4 (isoformat (y, m, d))) = y"
    and "tok_val (take 2 (drop 5 (isoformat (y, m, d)))) = m"
    and "tok_val (drop 8 (isoformat (y, m, d))) = d"
proof -
  let ?a = "zero_pad 4 (nat y)" and ?b = "zero_pad 2 (nat m)" and ?c = "zero_pad 2 (nat d)"
  from assms have r: "1 \<le> y" "y \<le> 9999" "1 \<le> m" "m \<le> 12" "1 \<le> d" "d \<le> 31"
    using days_in_month_le [of y m] by (auto simp: valid_date_def)
  then have la: "length ?a = 4" and lb: "length ?b = 2" and lc: "length ?c = 2"
    by (simp_all add: length_zero_pad)
  note p = iso_parts [OF la lb lc]
  have s: "isoformat (y, m, d) = ?a @ ''-'' @ ?b @ ''-'' @ ?c"
    by (simp add: isoformat_def)
  show len: "length (isoformat (y, m, d)) = 10"
    unfolding s by (rule p)
  show ya: "tok_val (take 4 (isoformat (y, m, d))) = y"
    unfolding s p using r by (simp add: tok_val_zero_pad)
  show mb: "tok_val (take 2 (drop 5 (isoformat (y, m, d)))) = m"
    unfolding s p using r by (simp add: tok_val_zero_pad)
  show dc: "tok_val (drop 8 (isoformat (y, m, d))) = d"
    unfolding s p using r by (simp add: tok_val_zero_pad)
  show re: "re_match_date (isoformat (y, m, d))"
    unfolding re_match_date_def s p
    using p(1) lc by (simp add: zero_pad_all del: append.simps)
  show "is_iso_date (isoformat (y, m, d))"
    unfolding is_iso_date_def using len re ya mb dc assms by simp
qed

lemma strftime_Ymd_isoformat: "1000 \<le> y \<Longrightarrow> strftime_Ymd (y, m, d) = isoformat (y, m, d)"
proof -
  assume "1000 \<le> y"
  then have "\<not> length (digits_of (nat y)) \<le> 3"
    using length_digits_of [of 3 "nat y"] by simp
  then show ?thesis by (simp add: strftime_Ymd_def isoformat_def zero_pad_def)
qed

lemma re_match_year_cases:
  "re_match_year s \<longleftrightarrow>
     (length s = 4 \<and> list_all is_digit s) \<or>
     (length s = 5 \<and> s ! 4 = CHR 0x0A \<and> list_all is_digit (take 4 s))"
  by (auto simp: re_match_year_def)

lemma digits_nth: "list_all is_digit s \<Longrightarrow> i < length s \<Longrightarrow> is_digit (s ! i)"
  by (simp add: list_all_length)

lemma length_digits_of_4: "length (digits_of n) = 4 \<longleftrightarrow> 1000 \<le> n \<and> n \<le> 9999"
  using length_digits_of [of 4 n] length_digits_of [of 3 n] by auto

lemma re_match_year_int: "re_match_year (py_str_int n) \<longleftrightarrow> 1000 \<le> n \<and> n \<le> 9999"
proof (cases "n < 0")
  case True
  have "\<not> is_digit CHR ''-''" by (simp add: is_digit_def)
  with True show ?thesis by (simp add: re_match_year_def py_str_int_def)
next
  case False
  let ?s = "digits_of (nat n)"
  have "length ?s = 5 \<Longrightarrow> ?s ! 4 \<noteq> CHR 0x0A"
    using digits_nth [OF digits_of_all, of 4 "nat n"] is_digit_not_sign by auto
  then have "re_match_year ?s \<longleftrightarrow> length ?s = 4"
    using digits_of_all [of "nat n"] by (auto simp: re_match_year_cases)
  with False show ?thesis by (auto simp: py_str_int_def length_digits_of_4)
qed

lemma re_match_date_int: "\<not> re_match_date (py_str_int n)"
proof
  assume a: "re_match_date (py_str_int n)"
  then have len: "10 \<le> length (py_str_int n)" and dash: "py_str_int n ! 4 = CHR ''-''"
    by (simp_all add: re_match_date_def)
  have "is_digit (py_str_int n ! 4)"
  proof (cases "n < 0")
    case True
    with len have "3 < length (digits_of (nat (- n)))" by (simp add: py_str_int_def)
    from digits_nth [OF digits_of_all this] True show ?thesis
      by (simp add: py_str_int_def)
  next
    case False
    with len have "4 < length (digits_of (nat n))" by (simp add: py_str_int_def)
    from digits_nth [OF digits_of_all this] False show ?thesis
      by (simp add: py_str_int_def)
  qed
  with dash show False using is_digit_not_sign by auto
qed

lemma int_of_DInt: "int_of (DInt n) = Inr n" "py_int (py_str (DInt n)) = Some n"
  by (simp_all add: int_of_def py_str_def py_int_py_str_int)

lemma int_of_DStr: "py_int s = Some n \<Longrightarrow> int_of (DStr s) = Inr n \<and> py_int (py_str (DStr s)) = Some n"
  by (simp add: int_of_def py_str_def)

lemma clamp_first_val:
  assumes "int_of date = Inr n" "py_int (py_str date) = Some n"
  shows "\<exists>date'. clamp_first nm ye y date = Inr date' \<and>
           int_of date' = Inr (if nm \<in> set ye then max n y else n) \<and>
           py_int (py_str date') = Some (if nm \<in> set ye then max n y else n)"
  using assms by (auto simp: clamp_first_def int_of_DInt)

lemma clamp_all_val:
  assumes "int_of date = Inr n" "py_int (py_str date) = Some n"
  shows "\<exists>date'. clamp_all nm ps date = Inr date' \<and>
           py_int (py_str date') =
             Some (foldl max n (map snd (filter (\<lambda>p. nm \<in> set (fst p)) ps)))"
  using assms
proof (induction ps arbitrary: date n)
  case Nil
  then show ?case by simp
next
  case (Cons p ps)
  obtain ye y where p: "p = (ye, y)" by (cases p) auto
  from clamp_first_val [OF Cons.prems, of nm ye y] obtain date1 where
    1: "clamp_first nm ye y date = Inr date1"
    and 2: "int_of date1 = Inr (if nm \<in> set ye then max n y else n)"
    and 3: "py_int (py_str date1) = Some (if nm \<in> set ye then max n y else n)"
    by blast
  from Cons.IH [OF 2 3] 1 show ?case by (auto simp: p)
qed

lemma YearEnd_date_val:
  assumes "year_arg date = Inr date1"
    and "(date1 = DNone \<and> y = now_year - 1) \<or>
         (date1 \<noteq> DNone \<and> int_of date1 = Inr y \<and> py_int (py_str date1) = Some y)"
  shows "\<exists>r. YearEnd_date tbl now_year nm date = Inr r \<and>
           py_int r = Some (resolved_year tbl now_year nm y)"
proof -
  let ?date2 = "if date1 = DNone then DInt (now_year - 1) else date1"
  from assms(2) have d2: "int_of ?date2 = Inr y" "py_int (py_str ?date2) = Some y"
    by (auto simp: int_of_DInt)
  let ?date3 = "if y > now_year - 1 then DInt (now_year - 1) else ?date2"
  have d3: "int_of ?date3 = Inr (min y (now_year - 1))"
    "py_int (py_str ?date3) = Some (min y (now_year - 1))"
    using d2 by (auto simp: int_of_DInt min_def)
  from clamp_all_val [OF d3, of nm "first_charts tbl"] obtain date' where
    "clamp_all nm (first_charts tbl) ?date3 = Inr date'"
    "py_int (py_str date') = Some (resolved_year tbl now_year nm y)"
    by (auto simp: resolved_year_def chart_epochs_def)
  with assms(1) d2(1) show ?thesis
    by (simp add: YearEnd_date_def Let_def)
qed

lemma year_of_date_iso:
  assumes "is_iso_date s"
  shows "\<exists>r. year_of_date s = Inr (DStr r) \<and> py_int r = Some (tok_val (take 4 s))"
proof -
  from assms have re: "re_match_date s" and v: "1 \<le> tok_val (take 4 s)"
    by (simp_all add: is_iso_date_def valid_date_def)
  have "year_of_date s = Inr (DStr (digits_of (nat (tok_val (take 4 s)))))"
    using assms by (simp add: year_of_date_def strptime_Ymd_iso [OF re] strftime_Y_def)
  moreover have "py_int (digits_of (nat (tok_val (take 4 s)))) = Some (tok_val (take 4 s))"
    using py_int_digits [OF digits_of_all digits_of_nonempty, of "nat (tok_val (take 4 s))"] v
    by (simp add: tok_val_digits_of)
  ultimately show ?thesis by blast
qed

lemma year_arg_accepted:
  assumes "accepted_year now_year date = Some y"
  shows "\<exists>date1. year_arg date = Inr date1 \<and>
           ((date1 = DNone \<and> y = now_year - 1) \<or>
            (date1 \<noteq> DNone \<and> int_of date1 = Inr y \<and> py_int (py_str date1) = Some y))"
proof (cases date)
  case DNone
  with assms show ?thesis by (auto simp: accepted_year_def year_arg_def)
next
  case (DInt n)
  with assms have n: "1000 \<le> n" "n \<le> 9999" "y = n"
    by (auto simp: accepted_year_def split: if_splits)
  then have "year_arg date = Inr (DInt n)"
    by (simp add: year_arg_def DInt py_str_def re_match_year_int)
  with n show ?thesis by (auto simp: int_of_DInt)
next
  case (DDate y' m d)
  with assms have v: "valid_date y' m d" and y: "y = y'"
    by (auto simp: accepted_year_def split: if_splits)
  note f = isoformat_valid [OF v]
  have "\<not> re_match_year (isoformat (y', m, d))"
    using f(1) by (simp add: re_match_year_def)
  then have "year_arg date = year_of_date (isoformat (y', m, d))"
    by (simp add: year_arg_def DDate py_str_def is_date_def)
  with year_of_date_iso [OF f(3)] f(4) y show ?thesis
    by (auto simp: int_of_def py_str_def)
next
  case (DStr s)
  show ?thesis
  proof (cases "length s = 4 \<and> list_all is_digit s")
    case True
    with assms DStr have y: "y = tok_val s" by (simp add: accepted_year_def)
    from True have "s \<noteq> []" by auto
    with True have "py_int s = Some (tok_val s)" by (simp add: py_int_digits)
    moreover from True have "year_arg date = Inr (DStr s)"
      by (simp add: year_arg_def DStr py_str_def re_match_year_def)
    ultimately show ?thesis using y by (auto simp: int_of_def py_str_def)
  next
    case False
    with assms DStr have iso: "is_iso_date s" and y: "y = tok_val (take 4 s)"
      by (auto simp: accepted_year_def split: if_splits)
    then have "\<not> re_match_year s" "re_match_date s"
      by (auto simp: is_iso_date_def re_match_year_def)
    then have "year_arg date = year_of_date s"
      by (simp add: year_arg_def DStr py_str_def is_date_def)
    with year_of_date_iso [OF iso] y show ?thesis
      by (auto simp: int_of_def py_str_def)
  qed
qed

lemma year_arg_rejected:
  assumes "accepted_year now_year date = None" "\<not> is_date date"
    and "CHR 0x0A \<notin> set (py_str date)"
  shows "\<exists>msg. year_arg date = Inl (ValueError msg)"
proof (cases date)
  case DNone
  with assms show ?thesis by (simp add: accepted_year_def)
next
  case (DInt n)
  with assms have "\<not> (1000 \<le> n \<and> n \<le> 9999)"
    by (auto simp: accepted_year_def split: if_splits)
  then show ?thesis
    by (simp add: year_arg_def DInt py_str_def re_match_year_int re_match_date_int is_date_def)
next
  case (DDate y m d)
  with assms show ?thesis by (simp add: is_date_def)
next
  case (DStr s)
  with assms have no: "\<not> (length s = 4 \<and> list_all is_digit s)" "\<not> is_iso_date s"
    by (auto simp: accepted_year_def split: if_splits)
  have "\<not> (length s = 5 \<and> s ! 4 = CHR 0x0A)"
  proof
    assume a: "length s = 5 \<and> s ! 4 = CHR 0x0A"
    then have "s ! 4 \<in> set s" by (intro nth_mem) simp
    with a assms(3) DStr show False by (simp add: py_str_def)
  qed
  with no have nre: "\<not> re_match_year s" by (auto simp: re_match_year_cases)
  show ?thesis
  proof (cases "re_match_date s")
    case True
    with nre no(2) show ?thesis
      by (simp add: year_arg_def DStr py_str_def is_date_def year_of_date_def
            strptime_Ymd_iso strptime_error_def)
  next
    case False
    with nre show ?thesis
      by (simp add: year_arg_def DStr py_str_def is_date_def)
  qed
qed

text \<open>
  C1, as stated, fails: a string of the shape \<open>YYYY-MM-DD\<close> that is no date of the
  calendar is not accepted.
\<close>

theorem year_end_rejects_impossible_date:
  "re_match_date ''2023-02-30'' \<and> length ''2023-02-30'' = 10 \<and>
   YearEnd_date sample_charts 2026 ''hot-100-songs'' (DStr ''2023-02-30'')
     = Inl (ValueError None)"
  by code_simp

text \<open>
  C1, amended.  \<open>None\<close> (the previous year), a bare year of four digits as a string or
  an integer, a string \<open>YYYY-MM-DD\<close> that is a date of the calendar (its year) and a
  date value (its year) are accepted; the year is clamped down to the year before the
  current one, then up to the epoch years of the lists that hold the chart name, and
  \<open>self.date\<close> is a string with that value.  Any other string without a line break and
  any other integer raise \<open>ValueError\<close>.
\<close>

theorem year_end_date_resolution:
  "(accepted_year now_year date = Some y \<longrightarrow>
      (\<exists>r. YearEnd_date tbl now_year nm date = Inr r \<and>
           py_int r = Some (resolved_year tbl now_year nm y))) \<and>
   (accepted_year now_year date = None \<and> \<not> is_date date \<and> CHR 0x0A \<notin> set (py_str date) \<longrightarrow>
      (\<exists>msg. YearEnd_date tbl now_year nm date = Inl (ValueError msg))) \<and>
   (chart_epochs tbl nm = [] \<longrightarrow> resolved_year tbl now_year nm y = min y (now_year - 1)) \<and>
   (chart_epochs tbl nm = [e] \<longrightarrow>
      resolved_year tbl now_year nm y = max e (min y (now_year - 1)))"
proof (intro conjI impI)
  assume "accepted_year now_year date = Some y"
  from year_arg_accepted [OF this] obtain date1 where
    "year_arg date = Inr date1"
    "(date1 = DNone \<and> y = now_year - 1) \<or>
     (date1 \<noteq> DNone \<and> int_of date1 = Inr y \<and> py_int (py_str date1) = Some y)"
    by blast
  then show "\<exists>r. YearEnd_date tbl now_year nm date = Inr r \<and>
           py_int r = Some (resolved_year tbl now_year nm y)"
    by (rule YearEnd_date_val)
next
  assume "accepted_year now_year date = None \<and> \<not> is_date date \<and> CHR 0x0A \<notin> set (py_str date)"
  then obtain msg where "year_arg date = Inl (ValueError msg)"
    using year_arg_rejected by blast
  then show "\<exists>msg. YearEnd_date tbl now_year nm date = Inl (ValueError msg)"
    by (simp add: YearEnd_date_def)
next
  assume "chart_epochs tbl nm = []"
  then show "resolved_year tbl now_year nm y = min y (now_year - 1)"
    by (simp add: resolved_year_def)
next
  assume "chart_epochs tbl nm = [e]"
  then show "resolved_year tbl now_year nm y = max e (min y (now_year - 1))"
    by (simp add: resolved_year_def max.commute)
qed

theorem year_end_date_resolution_witness:
  "accepted_year 2026 (DStr ''1998'') = Some 1998 \<and>
   chart_epochs sample_charts ''hot-latin-songs'' = [2002] \<and>
   (\<exists>r. YearEnd_date sample_charts 2026 ''hot-latin-songs'' (DStr ''1998'') = Inr r \<and>
        py_int r = Some 2002) \<and>
   accepted_year 2026 (DDate 2031 5 17) = Some 2031 \<and>
   chart_epochs sample_charts ''adult-pop-songs'' = [] \<and>
   (\<exists>r. YearEnd_date sample_charts 2026 ''adult-pop-songs'' (DDate 2031 5 17) = Inr r \<and>
        py_int r = Some 2025) \<and>
   (accepted_year 2026 (DStr ''20x0'') = None \<and> \<not> is_date (DStr ''20x0'') \<and>
    CHR 0x0A \<notin> set (py_str (DStr ''20x0''))) \<and>
   (\<exists>msg. YearEnd_date sample_charts 2026 ''hot-100-songs'' (DStr ''20x0'') = Inl (ValueError msg))"
proof -
  have acc: "accepted_year 2026 (DStr ''1998'') = Some 1998"
    "accepted_year 2026 (DDate 2031 5 17) = Some 2031"
    "accepted_year 2026 (DStr ''20x0'') = None"
    by code_simp+
  have epochs: "chart_epochs sample_charts ''hot-latin-songs'' = [2002]"
    "chart_epochs sample_charts ''adult-pop-songs'' = []"
    by code_simp+
  have other: "\<not> is_date (DStr ''20x0'')" "CHR 0x0A \<notin> set (py_str (DStr ''20x0''))"
    by code_simp+
  show ?thesis
    using year_end_date_resolution [where now_year = 2026 and date = "DStr ''1998''" and y = 1998
          and tbl = sample_charts and nm = "''hot-latin-songs''" and e = 2002]
      year_end_date_resolution [where now_year = 2026 and date = "DDate 2031 5 17" and y = 2031
          and tbl = sample_charts and nm = "''adult-pop-songs''"]
      year_end_date_resolution [where now_year = 2026 and date = "DStr ''20x0''" and y = 0
          and tbl = sample_charts and nm = "''hot-100-songs''" and e = 0]
    by (auto simp: acc epochs other)
qed

section \<open>Weekly dates of exactly ten characters\<close>

lemma split_iso:
  assumes "re_match_date s" "length s = 10"
  shows "split_on CHR ''-'' s = [take 4 s, take 2 (drop 5 s), drop 8 s]"
proof -
  let ?a = "take 4 s" and ?b = "take 2 (drop 5 s)" and ?c = "drop 8 s"
  from assms have a: "list_all is_digit ?a" and b: "list_all is_digit ?b"
    and c: "list_all is_digit ?c" and d4: "s ! 4 = CHR ''-''" and d7: "s ! 7 = CHR ''-''"
    by (simp_all add: re_match_date_def)
  have s: "s = ?a @ CHR ''-'' # ?b @ CHR ''-'' # ?c"
    using date_parts [of s] assms(2) d4 d7 by simp
  have "split_on CHR ''-'' s = ?a # ?b # split_on CHR ''-'' ?c"
    by (subst s, simp only: split_on_sep [OF digits_no_dash [OF a]],
        simp only: split_on_sep [OF digits_no_dash [OF b]])
  then show ?thesis by (simp add: split_on_none [OF digits_no_dash [OF c]])
qed

lemma check_date_exact:
  assumes "length s = 10"
  shows "check_date (Some s) = Inr () \<longleftrightarrow> is_iso_date s"
proof (cases "re_match_date s")
  case False
  then show ?thesis by (simp add: check_date_def is_iso_date_def)
next
  case True
  let ?a = "take 4 s" and ?b = "take 2 (drop 5 s)" and ?c = "drop 8 s"
  from True assms have "list_all is_digit ?a" "list_all is_digit ?b" "list_all is_digit ?c"
    "?a \<noteq> []" "?b \<noteq> []" "?c \<noteq> []"
    by (auto simp: re_match_date_def)
  then have "py_int ?a = Some (tok_val ?a)" "py_int ?b = Some (tok_val ?b)"
    "py_int ?c = Some (tok_val ?c)"
    by (simp_all add: py_int_digits)
  then show ?thesis
    using True assms
    by (simp add: check_date_def split_iso is_iso_date_def datetime_new_def valid_time_def)
qed

section \<open>The field that fails\<close>













section \<open>The date of the page\<close>

lemma strptime_BdY_valid: "strptime_BdY t = Some (y, m, d) \<Longrightarrow> valid_date y m d"
  by (auto simp: strptime_BdY_def Let_def split: option.splits prod.splits list.splits if_splits)

text \<open>
  C10, as stated, fails: a page with a table element that has the date element of the
  new layout only contains a date element that parses, and \<open>fetchEntries\<close> leaves the
  date of the snapshot as the caller gave it.
\<close>

theorem hybrid_page_keeps_date:
  "0 < tables sample_hybrid_page \<and>
   date_button_new sample_hybrid_page = Some ''January 05, 2019'' \<and>
   strptime_BdY (py_strip ''January 05, 2019'') = Some (2019, 1, 5) \<and>
   fst (fetchEntries (sample_http sample_hybrid_page) sample_chart) = None \<and>
   self_date (snd (fetchEntries (sample_http sample_hybrid_page) sample_chart))
     = Some ''2019-01-02''"
  by code_simp

text \<open>
  C10, amended.  When the page of a weekly chart has the date element of the layout it
  is parsed as (the old-style button on a page with a table, the new-style button
  otherwise) and the text of the element is a date, \<open>fetchEntries\<close> replaces the date
  of the snapshot by the date of the page as \<open>strftime('%Y-%m-%d')\<close> writes it, which
  is \<open>YYYY-MM-DD\<close> for the years from 1000 on.  The date that the caller gave is the
  one in the URL that was requested.
\<close>

theorem fetch_overwrites_date:
  "(check_status (http (chart_url s)) = Inr soup \<and>
    layout_date_button soup = Some dateText \<and>
    strptime_BdY (py_strip dateText) = Some curDate \<longrightarrow>
      self_date (snd (fetchEntries http s)) = Some (strftime_Ymd curDate) \<and>
      (1000 \<le> fst curDate \<longrightarrow> is_iso_date (strftime_Ymd curDate))) \<and>
   (self_date s = Some d \<and> d \<noteq> [] \<longrightarrow>
      chart_url s = ''https://www.billboard.com/charts/'' @ self_name s @ ''/'' @ d)"
proof (intro conjI impI)
  assume a: "check_status (http (chart_url s)) = Inr soup \<and>
    layout_date_button soup = Some dateText \<and>
    strptime_BdY (py_strip dateText) = Some curDate"
  then show "self_date (snd (fetchEntries http s)) = Some (strftime_Ymd curDate)"
    by (simp add: fetchEntries_def parsePage_date parse_page_date_def)
  obtain y m dd where c: "curDate = (y, m, dd)" by (cases curDate) auto
  assume "1000 \<le> fst curDate"
  with c have y: "1000 \<le> y" by simp
  from a c have "valid_date y m dd" using strptime_BdY_valid by blast
  from isoformat_valid(3) [OF this] y show "is_iso_date (strftime_Ymd curDate)"
    by (simp add: c strftime_Ymd_isoformat)
next
  assume "self_date s = Some d \<and> d \<noteq> []"
  then show "chart_url s = ''https://www.billboard.com/charts/'' @ self_name s @ ''/'' @ d"
    by (simp add: chart_url_def)
qed

theorem fetch_overwrites_date_witness:
  "(check_status (sample_http sample_page (chart_url sample_chart)) = Inr sample_page \<and>
    layout_date_button sample_page = Some ''January 05, 2019'' \<and>
    strptime_BdY (py_strip ''January 05, 2019'') = Some (2019, 1, 5)) \<and>
   (1000::int) \<le> fst (2019, 1, 5) \<and>
   (self_date sample_chart = Some ''2019-01-02'' \<and> ''2019-01-02'' \<noteq> []) \<and>
   chart_url sample_chart = ''https://www.billboard.com/charts/hot-100/2019-01-02'' \<and>
   self_date (snd (fetchEntries (sample_http sample_page) sample_chart)) = Some ''2019-01-05'' \<and>
   is_iso_date ''2019-01-05''"
proof -
  have button: "layout_date_button sample_page = Some ''January 05, 2019''"
    by (simp add: layout_date_button_def classify_def sample_page_def)
  have parsed: "strptime_BdY (py_strip ''January 05, 2019'') = Some (2019, 1, 5)"
    "strftime_Ymd (2019, 1, 5) = ''2019-01-05''"
    by code_simp+
  have chart: "self_date sample_chart = Some ''2019-01-02''" "self_name sample_chart = ''hot-100''"
    by (simp_all add: sample_chart_def)
  show ?thesis
    using fetch_overwrites_date [of "sample_http sample_page" sample_chart sample_page
        "''January 05, 2019''" "(2019, 1, 5)" "''2019-01-02''"]
    by (simp add: sample_status button parsed chart)
qed

end
